theory Spec2Isabelle
  imports Complex_Main
begin

section \<open>Figma2Code: the node model, the tree builder and the layout classifier\<close>

text \<open>
  A shallow embedding of \<^verbatim>\<open>src/figma_to_angular/alt_nodes.py\<close>.

  Conventions of the embedding.
  \<^item> A Python \<^verbatim>\<open>str\<close> that the code inspects character by character is a list of Unicode
    code points (\<open>nat list\<close>); identifiers that are only compared are \<open>string\<close>.
  \<^item> A number is the rational it denotes (\<open>rat\<close>). The arithmetic of the runtime on
    numbers is a parameter of the embedding (the record \<open>runtime\<close> below).
  \<^item> A key that is present holds a value of the type that its field has here.
  \<^item> An exception is a value \<open>Inl e\<close> of a sum type; a \<^verbatim>\<open>try/except\<close> is a case
    distinction on it.
\<close>

subsection \<open>Name sanitization: \<^verbatim>\<open>AngularNode._clean_name\<close>\<close>

type_synonym pystr = "nat list"

definition str :: "string \<Rightarrow> pystr" where
  "str s = map of_char s"

definition is_lower_az :: "nat \<Rightarrow> bool" where
  "is_lower_az c = (97 \<le> c \<and> c \<le> 122)"

definition is_upper_az :: "nat \<Rightarrow> bool" where
  "is_upper_az c = (65 \<le> c \<and> c \<le> 90)"

definition is_digit :: "nat \<Rightarrow> bool" where
  "is_digit c = (48 \<le> c \<and> c \<le> 57)"

text \<open>
  The class \<^verbatim>\<open>\s\<close> of a \<^verbatim>\<open>str\<close> pattern: the Unicode whitespace code points.
\<close>

definition is_space :: "nat \<Rightarrow> bool" where
  "is_space c = (c \<in> set [9, 10, 11, 12, 13, 28, 29, 30, 31, 32, 133, 160, 5760,
      8192, 8193, 8194, 8195, 8196, 8197, 8198, 8199, 8200, 8201, 8202,
      8232, 8233, 8239, 8287, 12288])"

text \<open>The characters that \<^verbatim>\<open>[^a-zA-Z0-9_\-\s]\<close> does not match, which the first
  substitution therefore keeps.\<close>

definition kept :: "nat \<Rightarrow> bool" where
  "kept c = (is_lower_az c \<or> is_upper_az c \<or> is_digit c \<or> c = 95 \<or> c = 45 \<or> is_space c)"

text \<open>\<^verbatim>\<open>re.sub(r'\s+', '-', clean)\<close>: every maximal run of whitespace becomes one hyphen.\<close>

function collapse_ws :: "pystr \<Rightarrow> pystr" where
  "collapse_ws [] = []"
| "collapse_ws (c # cs) =
     (if is_space c then 45 # collapse_ws (dropWhile is_space cs) else c # collapse_ws cs)"
  by pat_completeness auto
termination
  by (relation "measure length") (auto simp: less_Suc_eq_le length_dropWhile_le)

text \<open>
  \<^verbatim>\<open>str.lower\<close> and \<^verbatim>\<open>str.isalpha\<close>, on the characters that reach them: after the first
  substitution only ASCII letters, digits, underscore, hyphen (and whitespace, which the
  second substitution replaces) are left, so only the ASCII part of both is written out.
\<close>

definition lower_cp :: "nat \<Rightarrow> nat" where
  "lower_cp c = (if is_upper_az c then c + 32 else c)"

definition isalpha :: "nat \<Rightarrow> bool" where
  "isalpha c = (is_lower_az c \<or> is_upper_az c)"

definition clean_name :: "pystr \<Rightarrow> pystr" where
  "clean_name name =
     (if name = [] then str ''element''
      else
        let clean = filter kept name;
            clean = map lower_cp (collapse_ws clean);
            clean = (if clean \<noteq> [] \<and> \<not> isalpha (hd clean) then str ''el-'' @ clean else clean)
        in if clean \<noteq> [] then clean else str ''element'')"

subsection \<open>Raw records\<close>

text \<open>
  A raw design-node record is a JSON object. The keys that the modelled functions read are
  typed fields; \<open>None\<close> or \<open>Absent\<close> is a missing key. \<open>Null\<close> is a key that is present with
  the value \<^verbatim>\<open>null\<close>, on which \<^verbatim>\<open>.get\<close> raises \<^verbatim>\<open>AttributeError\<close>.

  The remaining keys (fills, strokes, effects, text style, corner radii, ...) are read only
  by \<^verbatim>\<open>_extract_style\<close>, \<^verbatim>\<open>_extract_content\<close> and \<^verbatim>\<open>_detect_component_type\<close>, whose
  results no function below looks at. Of them the record keeps only \<open>other_fault\<close>: the
  exception that these three extractions raise on the record, if any.
\<close>

datatype error = TypeError | AttributeError | KeyError

datatype 'a field = Absent | Null | Val 'a

record bbox =
  box_x :: "rat option"
  box_y :: "rat option"
  box_width :: "rat option"
  box_height :: "rat option"

record constraints_rec =
  horizontal :: "string option"
  vertical :: "string option"
  cwidth :: "string option"
  cheight :: "string option"

record figma_node =
  fid :: "string option"
  fname :: "pystr option"
  ftype :: "string option"
  parent_id :: "string option"
  absoluteBoundingBox :: "bbox field"
  constraints :: "constraints_rec field"
  layoutMode :: "string option"
  itemSpacing :: "rat option"
  has_children_key :: bool
  other_fault :: "error option"

subsection \<open>The node model: \<^verbatim>\<open>AngularNode\<close>\<close>

text \<open>
  \<^verbatim>\<open>size["width"]\<close> and \<^verbatim>\<open>size["height"]\<close> are the string \<^verbatim>\<open>"auto"\<close> or a number.
\<close>

datatype dim = Auto | Num rat

record position_rec =
  pos_x :: rat
  pos_y :: rat
  pos_position :: string

record size_rec =
  width :: dim
  height :: dim
  width_type :: string
  height_type :: string

text \<open>
  Of the \<^verbatim>\<open>layout\<close> dictionary the keys \<^verbatim>\<open>type\<close>, \<^verbatim>\<open>direction\<close> and \<^verbatim>\<open>spacing\<close> are
  modelled; \<^verbatim>\<open>padding\<close>, \<^verbatim>\<open>alignment\<close> and \<^verbatim>\<open>constraints\<close> are written once by the
  constructor and read by nothing below.
\<close>

record layout_rec =
  ltype :: string
  ldirection :: "string option"
  lspacing :: rat

text \<open>
  The values stored in \<^verbatim>\<open>flex_props\<close> and \<^verbatim>\<open>grid_props\<close>: a keyword, a pixel length
  \<^verbatim>\<open>f"{v}px"\<close>, and the two track lists \<^verbatim>\<open>f"repeat({n}, 1fr)"\<close> and
  \<^verbatim>\<open>f"repeat({n}, auto)"\<close>.
\<close>

datatype pval = Kw string | Px rat | RepeatFr nat | RepeatAuto nat

type_synonym props = "string \<rightharpoonup> pval"

record attrs =
  nid :: string
  nname :: pystr
  ntype :: string
  nposition :: position_rec
  nsize :: size_rec
  nlayout :: layout_rec
  is_container :: bool
  flex_props :: props
  grid_props :: props

text \<open>\<^verbatim>\<open>_extract_position\<close>\<close>

definition extract_position :: "figma_node \<Rightarrow> error + position_rec" where
  "extract_position node =
     (let position = \<lparr>pos_x = 0, pos_y = 0, pos_position = ''relative''\<rparr> in
      case (case absoluteBoundingBox node of
              Absent \<Rightarrow> Inr position
            | Null \<Rightarrow> Inl AttributeError
            | Val b \<Rightarrow> Inr (position\<lparr>pos_x := (case box_x b of None \<Rightarrow> 0 | Some v \<Rightarrow> v),
                                      pos_y := (case box_y b of None \<Rightarrow> 0 | Some v \<Rightarrow> v)\<rparr>)) of
        Inl e \<Rightarrow> Inl e
      | Inr position \<Rightarrow>
          (case constraints node of
             Null \<Rightarrow> Inl AttributeError
           | Absent \<Rightarrow> Inr position
           | Val c \<Rightarrow>
               if horizontal c = Some ''LEFT_RIGHT'' \<or> vertical c = Some ''TOP_BOTTOM''
               then Inr (position\<lparr>pos_position := ''absolute''\<rparr>)
               else Inr position))"

text \<open>\<^verbatim>\<open>_extract_size\<close>\<close>

definition size_type :: "string option \<Rightarrow> string" where
  "size_type flag = (if flag = Some ''FIXED'' then ''fixed'' else ''flexible'')"

definition extract_size :: "figma_node \<Rightarrow> error + size_rec" where
  "extract_size node =
     (case (case absoluteBoundingBox node of
              Absent \<Rightarrow> Inr (Auto, Auto)
            | Null \<Rightarrow> Inl AttributeError
            | Val b \<Rightarrow> Inr (Num (case box_width b of None \<Rightarrow> 0 | Some v \<Rightarrow> v),
                             Num (case box_height b of None \<Rightarrow> 0 | Some v \<Rightarrow> v))) of
        Inl e \<Rightarrow> Inl e
      | Inr (w, h) \<Rightarrow>
          (case constraints node of
             Null \<Rightarrow> Inl AttributeError
           | Absent \<Rightarrow>
               Inr \<lparr>width = w, height = h,
                    width_type = size_type None, height_type = size_type None\<rparr>
           | Val c \<Rightarrow>
               Inr \<lparr>width = w, height = h,
                    width_type = size_type (cwidth c), height_type = size_type (cheight c)\<rparr>))"

subsection \<open>The Python runtime\<close>

text \<open>
  A number of the program, a Python \<^verbatim>\<open>int\<close> or \<^verbatim>\<open>float\<close>, is the rational it denotes.
  Comparison, \<^verbatim>\<open>abs\<close>, \<^verbatim>\<open>max\<close>, \<^verbatim>\<open>min\<close> and \<^verbatim>\<open>round\<close> are exact on numbers and are
  written out. The results of \<^verbatim>\<open>+\<close>, \<^verbatim>\<open>-\<close>, \<^verbatim>\<open>/\<close> and \<^verbatim>\<open>sum\<close> are rounded by the
  runtime whenever an operand is a \<^verbatim>\<open>float\<close>, in a way that depends on the operands and,
  for \<^verbatim>\<open>sum\<close>, on the version of the interpreter; \<^verbatim>\<open>str.lower\<close> depends on the Unicode
  tables. None of these is written out: they are the fields of a record \<open>runtime\<close> that
  every function using them takes as its first argument, and every theorem below holds for
  every runtime. Numbers are finite, and no operation overflows the range of a
  \<^verbatim>\<open>float\<close>.
\<close>

record runtime =
  py_add :: "rat \<Rightarrow> rat \<Rightarrow> rat"
  py_sub :: "rat \<Rightarrow> rat \<Rightarrow> rat"
  py_truediv :: "rat \<Rightarrow> rat \<Rightarrow> rat"
  py_sum :: "rat list \<Rightarrow> rat"
  py_lower :: "string \<Rightarrow> string"

subsection \<open>The constructor: \<^verbatim>\<open>AngularNode.__init__\<close>\<close>

text \<open>\<^verbatim>\<open>_extract_layout\<close>, for the keys of the layout dictionary that are modelled.\<close>

definition extract_layout :: "runtime \<Rightarrow> figma_node \<Rightarrow> layout_rec" where
  "extract_layout rt node =
     (let layout = \<lparr>ltype = ''default'', ldirection = None, lspacing = 0\<rparr> in
      case layoutMode node of
        None \<Rightarrow> layout
      | Some mode \<Rightarrow>
          layout\<lparr>ltype := ''auto-layout'',
                 ldirection := Some (py_lower rt mode),
                 lspacing := (case itemSpacing node of None \<Rightarrow> 0 | Some v \<Rightarrow> v)\<rparr>)"

text \<open>\<^verbatim>\<open>_determine_if_container\<close>\<close>

definition determine_if_container :: "figma_node \<Rightarrow> bool" where
  "determine_if_container node =
     (let container_types = [''FRAME'', ''GROUP'', ''COMPONENT'', ''INSTANCE''] in
      (case ftype node of None \<Rightarrow> False | Some t \<Rightarrow> t \<in> set container_types)
      \<or> has_children_key node)"

text \<open>
  The constructor, in the order of its assignments. It raises what the first failing
  extraction raises; \<open>other_fault\<close> stands for the extractions that are not modelled.
\<close>

definition AngularNode_init :: "runtime \<Rightarrow> figma_node \<Rightarrow> error + attrs" where
  "AngularNode_init rt figma_node =
     (case extract_position figma_node of
        Inl e \<Rightarrow> Inl e
      | Inr position \<Rightarrow>
          (case extract_size figma_node of
             Inl e \<Rightarrow> Inl e
           | Inr node_size \<Rightarrow>
               (case other_fault figma_node of
                  Some e \<Rightarrow> Inl e
                | None \<Rightarrow>
                    Inr \<lparr>nid = (case fid figma_node of None \<Rightarrow> [] | Some i \<Rightarrow> i),
                         nname = clean_name (case fname figma_node of None \<Rightarrow> [] | Some n \<Rightarrow> n),
                         ntype = (case ftype figma_node of None \<Rightarrow> [] | Some t \<Rightarrow> t),
                         nposition = position,
                         nsize = node_size,
                         nlayout = extract_layout rt figma_node,
                         is_container = determine_if_container figma_node,
                         flex_props = Map.empty,
                         grid_props = Map.empty\<rparr>)))"

subsection \<open>The tree of nodes and the readers of a child's geometry\<close>

datatype node = Node (attrs_of: attrs) (children_of: "node list")

definition x_of :: "node \<Rightarrow> rat" where
  "x_of c = pos_x (nposition (attrs_of c))"

definition y_of :: "node \<Rightarrow> rat" where
  "y_of c = pos_y (nposition (attrs_of c))"

definition width_of :: "node \<Rightarrow> dim" where
  "width_of c = width (nsize (attrs_of c))"

definition height_of :: "node \<Rightarrow> dim" where
  "height_of c = height (nsize (attrs_of c))"

definition mode_of :: "node \<Rightarrow> string" where
  "mode_of c = pos_position (nposition (attrs_of c))"

text \<open>
  Arithmetic on a size: a number plus \<^verbatim>\<open>"auto"\<close>, and \<^verbatim>\<open>"auto" / 2\<close>, raise
  \<^verbatim>\<open>TypeError\<close>.
\<close>

definition add_dim :: "runtime \<Rightarrow> rat \<Rightarrow> dim \<Rightarrow> error + rat" where
  "add_dim rt a d = (case d of Auto \<Rightarrow> Inl TypeError | Num w \<Rightarrow> Inr (py_add rt a w))"

definition add_half_dim :: "runtime \<Rightarrow> rat \<Rightarrow> dim \<Rightarrow> error + rat" where
  "add_half_dim rt a d =
     (case d of Auto \<Rightarrow> Inl TypeError | Num w \<Rightarrow> Inr (py_add rt a (py_truediv rt w 2)))"

text \<open>A list comprehension whose element expression may raise: the first exception wins.\<close>

fun collect :: "(error + 'a) list \<Rightarrow> error + 'a list" where
  "collect [] = Inr []"
| "collect (Inl e # rs) = Inl e"
| "collect (Inr v # rs) = (case collect rs of Inl e \<Rightarrow> Inl e | Inr vs \<Rightarrow> Inr (v # vs))"

text \<open>
  \<^verbatim>\<open>max\<close> and \<^verbatim>\<open>min\<close> of a list. Every call below is on a list that the code has
  already found non-empty.
\<close>

fun py_max :: "rat list \<Rightarrow> rat" where
  "py_max (v # vs) = fold max vs v"

fun py_min :: "rat list \<Rightarrow> rat" where
  "py_min (v # vs) = fold min vs v"

text \<open>
  Python's \<^verbatim>\<open>round\<close> to an integer: to the nearest, a tie to the even neighbour. The
  bucket of a coordinate is \<^verbatim>\<open>round(v / 10) * 10\<close>.
\<close>

definition py_round :: "rat \<Rightarrow> int" where
  "py_round v =
     (let f = \<lfloor>v\<rfloor>; r = v - of_int f
      in if r < 1 / 2 then f else if 1 / 2 < r then f + 1 else if even f then f else f + 1)"

definition bucket :: "runtime \<Rightarrow> rat \<Rightarrow> int" where
  "bucket rt v = py_round (py_truediv rt v 10) * 10"

subsection \<open>The layout classifier\<close>

text \<open>
  The row and the column variant of each function differ only in the axis they read, so
  each pair is one definition over the readers of the axis (of any element type),
  instantiated twice under the source's names.
\<close>

text \<open>\<^verbatim>\<open>_children_aligned_horizontally\<close>, \<^verbatim>\<open>_children_aligned_vertically\<close>\<close>

definition children_aligned ::
  "runtime \<Rightarrow> ('a \<Rightarrow> rat) \<Rightarrow> ('a \<Rightarrow> rat) \<Rightarrow> 'a list \<Rightarrow> bool" where
  "children_aligned rt cross main children =
     (if children = [] \<or> length children < 2 then False
      else
        let positions = map cross children;
            avg = py_truediv rt (py_sum rt positions) (of_nat (length positions));
            max_deviation = 5;
            aligned = list_all (\<lambda>p. \<bar>py_sub rt p avg\<bar> \<le> max_deviation) positions
        in if aligned
           then (let spread = map main children
                 in 20 < py_sub rt (py_max spread) (py_min spread))
           else False)"

definition children_aligned_horizontally :: "runtime \<Rightarrow> node list \<Rightarrow> bool" where
  "children_aligned_horizontally rt = children_aligned rt y_of x_of"

definition children_aligned_vertically :: "runtime \<Rightarrow> node list \<Rightarrow> bool" where
  "children_aligned_vertically rt = children_aligned rt x_of y_of"

text \<open>\<^verbatim>\<open>_calculate_horizontal_spacing\<close>, \<^verbatim>\<open>_calculate_vertical_spacing\<close>\<close>

fun adjacent_spacings ::
  "runtime \<Rightarrow> ('a \<Rightarrow> rat) \<Rightarrow> ('a \<Rightarrow> dim) \<Rightarrow> 'a list \<Rightarrow> error + rat list" where
  "adjacent_spacings rt pos ext (cur # nxt # others) =
     (case add_dim rt (pos cur) (ext cur) of
        Inl e \<Rightarrow> Inl e
      | Inr cur_end \<Rightarrow>
          (case adjacent_spacings rt pos ext (nxt # others) of
             Inl e \<Rightarrow> Inl e
           | Inr spacings \<Rightarrow> Inr (py_sub rt (pos nxt) cur_end # spacings)))"
| "adjacent_spacings rt pos ext others = Inr []"

definition calculate_spacing ::
  "runtime \<Rightarrow> ('a \<Rightarrow> rat) \<Rightarrow> ('a \<Rightarrow> dim) \<Rightarrow> 'a list \<Rightarrow> error + rat" where
  "calculate_spacing rt pos ext children =
     (if length children < 2 then Inr 0
      else
        let sorted_children = sort_key pos children in
        case adjacent_spacings rt pos ext sorted_children of
          Inl e \<Rightarrow> Inl e
        | Inr spacings \<Rightarrow>
            let positive_spacings = filter (\<lambda>s. 0 < s) spacings
            in if positive_spacings \<noteq> []
               then Inr (py_truediv rt (py_sum rt positive_spacings)
                           (of_nat (length positive_spacings)))
               else Inr 0)"

definition calculate_horizontal_spacing :: "runtime \<Rightarrow> node list \<Rightarrow> error + rat" where
  "calculate_horizontal_spacing rt = calculate_spacing rt x_of width_of"

definition calculate_vertical_spacing :: "runtime \<Rightarrow> node list \<Rightarrow> error + rat" where
  "calculate_vertical_spacing rt = calculate_spacing rt y_of height_of"

text \<open>\<^verbatim>\<open>_detect_vertical_alignment\<close>, \<^verbatim>\<open>_detect_horizontal_alignment\<close>\<close>

definition detect_alignment ::
  "runtime \<Rightarrow> ('a \<Rightarrow> rat) \<Rightarrow> ('a \<Rightarrow> dim) \<Rightarrow> 'a list \<Rightarrow> error + string option" where
  "detect_alignment rt pos ext children =
     (if children = [] then Inr None
      else
        let positions = map pos children in
        if list_all (\<lambda>p. \<bar>py_sub rt p (py_min positions)\<bar> < 5) positions
        then Inr (Some ''flex-start'')
        else
          case collect (map (\<lambda>c. add_dim rt (pos c) (ext c)) children) of
            Inl e \<Rightarrow> Inl e
          | Inr end_positions \<Rightarrow>
              if list_all (\<lambda>b. \<bar>py_sub rt b (py_max end_positions)\<bar> < 5) end_positions
              then Inr (Some ''flex-end'')
              else
                case collect (map (\<lambda>c. add_half_dim rt (pos c) (ext c)) children) of
                  Inl e \<Rightarrow> Inl e
                | Inr centers \<Rightarrow>
                    let center_avg = py_truediv rt (py_sum rt centers) (of_nat (length centers)) in
                    if list_all (\<lambda>c. \<bar>py_sub rt c center_avg\<bar> < 10) centers
                    then Inr (Some ''center'')
                    else if 1 < card (set positions) \<and> 2 < length children
                    then Inr (Some ''space-between'')
                    else Inr None)"

definition detect_vertical_alignment :: "runtime \<Rightarrow> node list \<Rightarrow> error + string option" where
  "detect_vertical_alignment rt = detect_alignment rt y_of height_of"

definition detect_horizontal_alignment :: "runtime \<Rightarrow> node list \<Rightarrow> error + string option" where
  "detect_horizontal_alignment rt = detect_alignment rt x_of width_of"

text \<open>\<^verbatim>\<open>_appears_to_be_grid\<close>, \<^verbatim>\<open>_detect_grid_dimensions\<close>\<close>

definition appears_to_be_grid :: "runtime \<Rightarrow> node list \<Rightarrow> bool" where
  "appears_to_be_grid rt children =
     (if length children < 4 then False
      else
        let x_positions = set (map (\<lambda>child. bucket rt (x_of child)) children);
            y_positions = set (map (\<lambda>child. bucket rt (y_of child)) children)
        in 1 < card x_positions \<and> 1 < card y_positions)"

definition detect_grid_dimensions :: "runtime \<Rightarrow> node list \<Rightarrow> nat \<times> nat" where
  "detect_grid_dimensions rt children =
     (let x_positions = set (map (\<lambda>child. bucket rt (x_of child)) children);
          y_positions = set (map (\<lambda>child. bucket rt (y_of child)) children)
      in (card x_positions, card y_positions))"

text \<open>
  \<^verbatim>\<open>_calculate_grid_gaps\<close>. The dictionary from bucket to the children in it is an
  association list in insertion order; \<^verbatim>\<open>sorted(d.keys())\<close> followed by the lookups
  \<^verbatim>\<open>d[col]\<close> is the list of groups in ascending order of their (distinct) keys.
  \<^verbatim>\<open>max(group, key=edge)\<close> evaluates \<^verbatim>\<open>edge\<close> on every member, and the edge of the member
  it returns is the largest edge; likewise \<^verbatim>\<open>min\<close>.
\<close>

definition add_to_group :: "int \<Rightarrow> 'a \<Rightarrow> (int \<times> 'a list) list \<Rightarrow> (int \<times> 'a list) list" where
  "add_to_group k child groups =
     (case map_of groups k of
        None \<Rightarrow> groups @ [(k, [child])]
      | Some members \<Rightarrow> map (\<lambda>(k', ms). if k' = k then (k', ms @ [child]) else (k', ms)) groups)"

definition group_by_bucket ::
  "runtime \<Rightarrow> ('a \<Rightarrow> rat) \<Rightarrow> 'a list \<Rightarrow> (int \<times> 'a list) list" where
  "group_by_bucket rt pos children =
     fold (\<lambda>child groups. add_to_group (bucket rt (pos child)) child groups) children []"

fun bucket_gaps ::
  "runtime \<Rightarrow> ('a \<Rightarrow> rat) \<Rightarrow> ('a \<Rightarrow> dim) \<Rightarrow> 'a list list \<Rightarrow> error + rat list" where
  "bucket_gaps rt pos ext (grp # next_grp # others) =
     (case collect (map (\<lambda>c. add_dim rt (pos c) (ext c)) grp) of
        Inl e \<Rightarrow> Inl e
      | Inr ends \<Rightarrow>
          (case bucket_gaps rt pos ext (next_grp # others) of
             Inl e \<Rightarrow> Inl e
           | Inr gaps \<Rightarrow> Inr (py_sub rt (py_min (map pos next_grp)) (py_max ends) # gaps)))"
| "bucket_gaps rt pos ext others = Inr []"

definition axis_gap ::
  "runtime \<Rightarrow> ('a \<Rightarrow> rat) \<Rightarrow> ('a \<Rightarrow> dim) \<Rightarrow> 'a list \<Rightarrow> error + rat" where
  "axis_gap rt pos ext children =
     (let positions = group_by_bucket rt pos children;
          sorted_groups = map snd (sort_key fst positions)
      in case bucket_gaps rt pos ext sorted_groups of
           Inl e \<Rightarrow> Inl e
         | Inr gaps \<Rightarrow>
             Inr (if gaps \<noteq> [] then py_truediv rt (py_sum rt gaps) (of_nat (length gaps))
                  else 0))"

definition calculate_grid_gaps ::
  "runtime \<Rightarrow> node list \<Rightarrow> nat \<Rightarrow> nat \<Rightarrow> error + rat \<times> rat" where
  "calculate_grid_gaps rt children cols rows =
     (case axis_gap rt x_of width_of children of
        Inl e \<Rightarrow> Inl e
      | Inr h_gap \<Rightarrow>
          (case axis_gap rt y_of height_of children of
             Inl e \<Rightarrow> Inl e
           | Inr v_gap \<Rightarrow> Inr (h_gap, v_gap)))"

text \<open>
  \<^verbatim>\<open>_analyze_node_layout\<close> mutates the node it is given and may raise in the middle of
  doing so. It is a function from the node's fields and children to the fields after the
  call and the exception that ended the call, if any. The children are only read.
\<close>

definition set_auto_layout :: "string \<Rightarrow> string \<Rightarrow> attrs \<Rightarrow> attrs" where
  "set_auto_layout dir flow a =
     a\<lparr>nlayout := (nlayout a)\<lparr>ltype := ''auto-layout'', ldirection := Some dir\<rparr>,
       flex_props := [''display'' \<mapsto> Kw ''flex'', ''flex-direction'' \<mapsto> Kw flow]\<rparr>"

definition set_spacing :: "rat \<Rightarrow> attrs \<Rightarrow> attrs" where
  "set_spacing spacing a =
     (if 0 < spacing
      then a\<lparr>nlayout := (nlayout a)\<lparr>lspacing := spacing\<rparr>,
             flex_props := (flex_props a)(''gap'' \<mapsto> Px spacing)\<rparr>
      else a)"

definition set_align_items :: "string option \<Rightarrow> attrs \<Rightarrow> attrs" where
  "set_align_items alignment a =
     (case alignment of
        None \<Rightarrow> a
      | Some v \<Rightarrow> if v \<noteq> [] then a\<lparr>flex_props := (flex_props a)(''align-items'' \<mapsto> Kw v)\<rparr> else a)"

definition flex_branch ::
  "string \<Rightarrow> string \<Rightarrow> (node list \<Rightarrow> error + rat) \<Rightarrow> (node list \<Rightarrow> error + string option)
     \<Rightarrow> attrs \<Rightarrow> node list \<Rightarrow> attrs \<times> error option" where
  "flex_branch dir flow calculate detect a children =
     (let a = set_auto_layout dir flow a in
      case calculate children of
        Inl e \<Rightarrow> (a, Some e)
      | Inr spacing \<Rightarrow>
          let a = set_spacing spacing a in
          case detect children of
            Inl e \<Rightarrow> (a, Some e)
          | Inr alignment \<Rightarrow> (set_align_items alignment a, None))"

definition set_grid_type :: "attrs \<Rightarrow> attrs" where
  "set_grid_type a = a\<lparr>nlayout := (nlayout a)\<lparr>ltype := ''grid''\<rparr>\<rparr>"

definition set_grid_template :: "nat \<Rightarrow> nat \<Rightarrow> attrs \<Rightarrow> attrs" where
  "set_grid_template cols rows a =
     a\<lparr>grid_props := [''display'' \<mapsto> Kw ''grid'',
                      ''grid-template-columns'' \<mapsto> RepeatFr cols,
                      ''grid-template-rows'' \<mapsto> RepeatAuto rows]\<rparr>"

definition set_grid_gap :: "string \<Rightarrow> rat \<Rightarrow> attrs \<Rightarrow> attrs" where
  "set_grid_gap key gap a =
     (if 0 < gap then a\<lparr>grid_props := (grid_props a)(key \<mapsto> Px gap)\<rparr> else a)"

definition grid_branch :: "runtime \<Rightarrow> attrs \<Rightarrow> node list \<Rightarrow> attrs \<times> error option" where
  "grid_branch rt a children =
     (let a = set_grid_type a;
          (cols, rows) = detect_grid_dimensions rt children;
          a = set_grid_template cols rows a
      in case calculate_grid_gaps rt children cols rows of
           Inl e \<Rightarrow> (a, Some e)
         | Inr (h_gap, v_gap) \<Rightarrow>
             (set_grid_gap ''row-gap'' v_gap (set_grid_gap ''column-gap'' h_gap a), None))"

definition classify :: "runtime \<Rightarrow> attrs \<Rightarrow> node list \<Rightarrow> attrs \<times> error option" where
  "classify rt a children =
     (if children_aligned_horizontally rt children
      then flex_branch ''horizontal'' ''row''
             (calculate_horizontal_spacing rt) (detect_vertical_alignment rt) a children
      else if children_aligned_vertically rt children
      then flex_branch ''vertical'' ''column''
             (calculate_vertical_spacing rt) (detect_horizontal_alignment rt) a children
      else if appears_to_be_grid rt children
      then grid_branch rt a children
      else (a, None))"

definition force_relative :: "attrs \<Rightarrow> node list \<Rightarrow> attrs" where
  "force_relative a children =
     (let positioned_elements = filter (\<lambda>c. mode_of c = ''absolute'') children
      in if positioned_elements \<noteq> []
         then (if flex_props a = Map.empty \<and> grid_props a = Map.empty
               then a\<lparr>nposition := (nposition a)\<lparr>pos_position := ''relative''\<rparr>\<rparr>
               else a)
         else a)"

definition analyze_node_layout ::
  "runtime \<Rightarrow> attrs \<Rightarrow> node list \<Rightarrow> attrs \<times> error option" where
  "analyze_node_layout rt a children =
     (if \<not> is_container a \<or> children = [] then (a, None)
      else
        case classify rt a children of
          (a, Some e) \<Rightarrow> (a, Some e)
        | (a, None) \<Rightarrow> (force_relative a children, None))"

text \<open>
  \<^verbatim>\<open>analyze_layout\<close>. The body of its loop, on one node of a tree: the node is analyzed;
  if that raised, the exception is caught and the node's children are not visited;
  otherwise each child is visited by the recursive call \<^verbatim>\<open>analyze_layout([child])\<close>,
  which catches whatever is raised below it. The tree is mutated in place; the function
  returns the tree after the call.
\<close>

fun analyze_layout_node :: "runtime \<Rightarrow> node \<Rightarrow> node" where
  "analyze_layout_node rt (Node a cs) =
     (case analyze_node_layout rt a cs of
        (a', Some e) \<Rightarrow> Node a' cs
      | (a', None) \<Rightarrow> Node a' (map (analyze_layout_node rt) cs))"

definition analyze_layout :: "runtime \<Rightarrow> node list \<Rightarrow> node list" where
  "analyze_layout rt nodes = map (analyze_layout_node rt) nodes"

subsection \<open>The tree builder: \<^verbatim>\<open>convert_to_angular_nodes\<close>\<close>

text \<open>
  An element of the input list is a dictionary or something else. The builder creates
  objects and links them by mutation, so its state is an explicit heap: a list of objects,
  the address of an object being its index. \<open>node_map\<close> is the dictionary from identifier
  to object, in insertion order; \<open>root_nodes\<close> is the list that the function returns;
  \<open>printed\<close> is what it has printed.
\<close>

datatype raw_item = NotDict | Dict figma_node

datatype message =
  NoNodes | NoId | ConvertError error | RelationError error | NoRoots nat

record obj =
  o_attrs :: attrs
  o_children :: "nat list"
  o_parent :: "nat option"

record conversion =
  heap :: "obj list"
  node_map :: "(string \<times> nat) list"
  root_nodes :: "nat list"
  printed :: "message list"

text \<open>The first loop: the elements that are dictionaries with an \<^verbatim>\<open>id\<close> key.\<close>

fun collect_valid :: "raw_item list \<Rightarrow> figma_node list \<times> message list" where
  "collect_valid [] = ([], [])"
| "collect_valid (NotDict # items) =
     (case collect_valid items of (valid_nodes, out) \<Rightarrow> (valid_nodes, NoId # out))"
| "collect_valid (Dict node # items) =
     (case collect_valid items of (valid_nodes, out) \<Rightarrow>
        if fid node = None then (valid_nodes, NoId # out) else (node # valid_nodes, out))"

text \<open>\<^verbatim>\<open>d[k] = v\<close> on a dictionary in insertion order.\<close>

fun dict_set :: "'k \<Rightarrow> 'v \<Rightarrow> ('k \<times> 'v) list \<Rightarrow> ('k \<times> 'v) list" where
  "dict_set k v [] = [(k, v)]"
| "dict_set k v ((k', v') # d) = (if k' = k then (k, v) # d else (k', v') # dict_set k v d)"

text \<open>The body of the first pass, inside its \<^verbatim>\<open>try\<close>, and with the \<^verbatim>\<open>except\<close> around it.\<close>

definition new_node :: "runtime \<Rightarrow> figma_node \<Rightarrow> conversion \<Rightarrow> error + conversion" where
  "new_node rt node c =
     (case AngularNode_init rt node of
        Inl e \<Rightarrow> Inl e
      | Inr a \<Rightarrow>
          let angular_node = length (heap c);
              c = c\<lparr>heap := heap c @ [\<lparr>o_attrs = a, o_children = [], o_parent = None\<rparr>],
                    node_map := dict_set (nid a) angular_node (node_map c)\<rparr>
          in if parent_id node = None
             then Inr (c\<lparr>root_nodes := root_nodes c @ [angular_node]\<rparr>)
             else Inr c)"

definition first_pass_step :: "runtime \<Rightarrow> figma_node \<Rightarrow> conversion \<Rightarrow> conversion" where
  "first_pass_step rt node c =
     (case new_node rt node c of
        Inl e \<Rightarrow> c\<lparr>printed := printed c @ [ConvertError e]\<rparr>
      | Inr c' \<Rightarrow> c')"

text \<open>\<^verbatim>\<open>AngularNode.add_child\<close>, on the heap.\<close>

definition add_child :: "nat \<Rightarrow> nat \<Rightarrow> obj list \<Rightarrow> obj list" where
  "add_child parent child h =
     (let h = h[parent := (h ! parent)\<lparr>o_children := o_children (h ! parent) @ [child]\<rparr>]
      in h[child := (h ! child)\<lparr>o_parent := Some parent\<rparr>])"

text \<open>The body of the second pass, inside its \<^verbatim>\<open>try\<close>, and with the \<^verbatim>\<open>except\<close> around it.\<close>

definition relate :: "figma_node \<Rightarrow> conversion \<Rightarrow> error + conversion" where
  "relate node c =
     (case parent_id node of
        None \<Rightarrow> Inr c
      | Some pid \<Rightarrow>
          (case map_of (node_map c) pid of
             None \<Rightarrow> Inr c
           | Some parent \<Rightarrow>
               (case fid node of
                  None \<Rightarrow> Inl KeyError
                | Some i \<Rightarrow>
                    (case map_of (node_map c) i of
                       None \<Rightarrow> Inr c
                     | Some child \<Rightarrow> Inr (c\<lparr>heap := add_child parent child (heap c)\<rparr>)))))"

definition second_pass_step :: "figma_node \<Rightarrow> conversion \<Rightarrow> conversion" where
  "second_pass_step node c =
     (case relate node c of
        Inl e \<Rightarrow> c\<lparr>printed := printed c @ [RelationError e]\<rparr>
      | Inr c' \<Rightarrow> c')"

definition root_fallback :: "conversion \<Rightarrow> conversion" where
  "root_fallback c =
     (if root_nodes c = [] \<and> node_map c \<noteq> []
      then (let first_node = snd (hd (node_map c))
            in c\<lparr>root_nodes := root_nodes c @ [first_node],
                  printed := printed c @ [NoRoots first_node]\<rparr>)
      else c)"

definition convert_to_angular_nodes :: "runtime \<Rightarrow> raw_item list \<Rightarrow> error + conversion" where
  "convert_to_angular_nodes rt figma_nodes =
     (if figma_nodes = []
      then Inr \<lparr>heap = [], node_map = [], root_nodes = [], printed = [NoNodes]\<rparr>
      else
        case collect_valid figma_nodes of (valid_nodes, out) \<Rightarrow>
          let c = \<lparr>heap = [], node_map = [], root_nodes = [], printed = out\<rparr>;
              c = fold (first_pass_step rt) valid_nodes c;
              c = fold second_pass_step valid_nodes c
          in Inr (root_fallback c))"

text \<open>
  The descendants of an object: what its \<^verbatim>\<open>children\<close> lists lead to, in one step or more.
\<close>

inductive descends :: "obj list \<Rightarrow> nat \<Rightarrow> nat \<Rightarrow> bool" for h :: "obj list" where
  child: "a < length h \<Longrightarrow> d \<in> set (o_children (h ! a)) \<Longrightarrow> descends h a d"
| below: "descends h a m \<Longrightarrow> m < length h \<Longrightarrow> d \<in> set (o_children (h ! m)) \<Longrightarrow> descends h a d"

section \<open>Auxiliary notions and concrete inputs\<close>

text \<open>The alphabet of sanitized names: lower-case letters, digits, underscore and hyphen.\<close>

definition ident_char :: "nat \<Rightarrow> bool" where
  "ident_char c = (is_lower_az c \<or> is_digit c \<or> c = 95 \<or> c = 45)"

text \<open>Two raw records.\<close>

definition stretch_h_only :: figma_node where
  "stretch_h_only =
     \<lparr>fid = Some ''1:2'', fname = Some (str ''Box''), ftype = Some ''RECTANGLE'',
      parent_id = None, absoluteBoundingBox = Absent,
      constraints = Val \<lparr>horizontal = Some ''LEFT_RIGHT'', vertical = Some ''TOP'',
                         cwidth = None, cheight = None\<rparr>,
      layoutMode = None, itemSpacing = None, has_children_key = False, other_fault = None\<rparr>"

definition boxed_fixed_width :: figma_node where
  "boxed_fixed_width =
     \<lparr>fid = Some ''1:3'', fname = Some (str ''Label''), ftype = Some ''TEXT'',
      parent_id = None,
      absoluteBoundingBox = Val \<lparr>box_x = Some 10, box_y = Some 20,
                                 box_width = Some 80, box_height = None\<rparr>,
      constraints = Val \<lparr>horizontal = Some ''LEFT'', vertical = Some ''TOP'',
                         cwidth = Some ''FIXED'', cheight = None\<rparr>,
      layoutMode = None, itemSpacing = None, has_children_key = False, other_fault = None\<rparr>"

text \<open>
  A node as the constructor leaves it has no flex and no grid props. A node is consistent
  when its grid props are non-empty only under layout type \<^verbatim>\<open>grid\<close>, its flex props are
  non-empty only under direction \<^verbatim>\<open>horizontal\<close> or \<^verbatim>\<open>vertical\<close>, and not both are
  non-empty. \<open>all_nodes P t\<close>: every node of the tree \<open>t\<close> satisfies \<open>P\<close>.
\<close>

definition fresh :: "attrs \<Rightarrow> bool" where
  "fresh a = (flex_props a = Map.empty \<and> grid_props a = Map.empty)"

definition consistent :: "attrs \<Rightarrow> bool" where
  "consistent a =
     ((grid_props a \<noteq> Map.empty \<longrightarrow> ltype (nlayout a) = ''grid'') \<and>
      (flex_props a \<noteq> Map.empty \<longrightarrow>
         ldirection (nlayout a) = Some ''horizontal'' \<or> ldirection (nlayout a) = Some ''vertical'') \<and>
      (flex_props a = Map.empty \<or> grid_props a = Map.empty))"

fun all_nodes :: "(attrs \<Rightarrow> bool) \<Rightarrow> node \<Rightarrow> bool" where
  "all_nodes P (Node a cs) = (P a \<and> list_all (all_nodes P) cs)"



definition has_box :: "node \<Rightarrow> bool" where
  "has_box c = (width_of c \<noteq> Auto \<and> height_of c \<noteq> Auto)"







text \<open>
  The runtime on the inputs below. Their coordinates and sizes are integers, and every sum,
  difference and quotient that the functions form on them is an integer or half an
  integer: on these the floating-point operations are exact. The identifiers are ASCII,
  on which \<^verbatim>\<open>str.lower\<close> maps \<^verbatim>\<open>A\<close> to \<^verbatim>\<open>Z\<close> to \<^verbatim>\<open>a\<close> to \<^verbatim>\<open>z\<close>.
\<close>

definition lower_ascii :: "char \<Rightarrow> char" where
  "lower_ascii ch =
     (if 65 \<le> (of_char ch :: nat) \<and> (of_char ch :: nat) \<le> 90
      then char_of (of_char ch + 32 :: nat) else ch)"

definition exact :: runtime where
  "exact = \<lparr>py_add = (\<lambda>a b. a + b), py_sub = (\<lambda>a b. a - b), py_truediv = (\<lambda>a b. a / b),
            py_sum = sum_list, py_lower = map lower_ascii\<rparr>"

text \<open>Nodes to run the classifier on: a leaf with a bounding box, and a frame.\<close>

definition leaf :: "rat \<Rightarrow> rat \<Rightarrow> rat \<Rightarrow> rat \<Rightarrow> node" where
  "leaf x y w h =
     Node \<lparr>nid = ''leaf'', nname = str ''leaf'', ntype = ''RECTANGLE'',
           nposition = \<lparr>pos_x = x, pos_y = y, pos_position = ''relative''\<rparr>,
           nsize = \<lparr>width = Num w, height = Num h,
                    width_type = ''flexible'', height_type = ''flexible''\<rparr>,
           nlayout = \<lparr>ltype = ''default'', ldirection = None, lspacing = 0\<rparr>,
           is_container = False, flex_props = Map.empty, grid_props = Map.empty\<rparr> []"

definition frame :: attrs where
  "frame =
     \<lparr>nid = ''frame'', nname = str ''frame'', ntype = ''FRAME'',
      nposition = \<lparr>pos_x = 0, pos_y = 0, pos_position = ''relative''\<rparr>,
      nsize = \<lparr>width = Num 400, height = Num 400,
               width_type = ''flexible'', height_type = ''flexible''\<rparr>,
      nlayout = \<lparr>ltype = ''default'', ldirection = None, lspacing = 0\<rparr>,
      is_container = True, flex_props = Map.empty, grid_props = Map.empty\<rparr>"

text \<open>
  Lists of children: a row; a column; a 3-by-2 grid; four children that satisfy the row
  test and the grid test at once, and four that satisfy the column test and the grid test
  at once; a row whose vertical centers agree; a row of children that touch; four children
  stacked too closely for any test.
\<close>

definition row3 :: "node list" where
  "row3 = [leaf 0 100 100 40, leaf 120 102 100 40, leaf 240 98 100 40]"

definition column3 :: "node list" where
  "column3 = [leaf 50 0 100 100, leaf 52 150 100 100, leaf 48 300 100 100]"

definition grid6 :: "node list" where
  "grid6 = [leaf 0 0 100 150, leaf 150 0 100 150, leaf 300 0 100 150,
            leaf 0 200 100 150, leaf 150 200 100 150, leaf 300 200 100 150]"

definition row_and_grid4 :: "node list" where
  "row_and_grid4 = [leaf 0 0 80 40, leaf 100 10 80 40, leaf 200 0 80 40, leaf 300 10 80 40]"

definition column_and_grid4 :: "node list" where
  "column_and_grid4 = [leaf 0 0 80 40, leaf 10 100 80 40, leaf 0 200 80 40, leaf 10 300 80 40]"




text \<open>
  Two raw records of a frame, without and with the key \<^verbatim>\<open>layoutMode\<close>, and a raw record
  of a rectangle that has no bounding box.
\<close>

definition plain_frame :: figma_node where
  "plain_frame =
     \<lparr>fid = Some ''1:10'', fname = None, ftype = Some ''FRAME'', parent_id = None,
      absoluteBoundingBox = Val \<lparr>box_x = Some 0, box_y = Some 0,
                                 box_width = Some 400, box_height = Some 400\<rparr>,
      constraints = Absent, layoutMode = None, itemSpacing = None,
      has_children_key = True, other_fault = None\<rparr>"

definition auto_frame :: figma_node where
  "auto_frame = plain_frame\<lparr>layoutMode := Some ''HORIZONTAL'', itemSpacing := Some 8\<rparr>"


text \<open>The node that the constructor makes of a record, where it does not raise.\<close>

definition built :: "figma_node \<Rightarrow> attrs" where
  "built r = projr (AngularNode_init exact r)"

section \<open>Properties\<close>

subsection \<open>Name sanitization\<close>

lemma str_element: "str ''element'' = [101, 108, 101, 109, 101, 110, 116]"
  by (simp add: str_def)

lemma str_el: "str ''el-'' = [101, 108, 45]"
  by (simp add: str_def)

lemma ident_char_not_space: "ident_char c \<Longrightarrow> \<not> is_space c"
  by (auto simp: ident_char_def is_space_def is_lower_az_def is_digit_def)

lemma ident_char_kept: "ident_char c \<Longrightarrow> kept c"
  by (auto simp: ident_char_def kept_def)

lemma ident_char_lower: "ident_char c \<Longrightarrow> lower_cp c = c"
  by (auto simp: ident_char_def lower_cp_def is_upper_az_def is_lower_az_def is_digit_def)

lemma collapse_ws_id: "list_all (\<lambda>c. \<not> is_space c) cs \<Longrightarrow> collapse_ws cs = cs"
  by (induction cs) auto

lemma collapse_ws_chars:
  "list_all kept cs \<Longrightarrow> list_all (\<lambda>c. kept c \<and> \<not> is_space c) (collapse_ws cs)"
proof (induction cs rule: collapse_ws.induct)
  case 1
  then show ?case by simp
next
  case (2 c cs)
  show ?case
  proof (cases "is_space c")
    case True
    have "list_all kept (dropWhile is_space cs)"
      using "2.prems" by (auto simp: list_all_iff dest: set_dropWhileD)
    moreover have "kept 45 \<and> \<not> is_space 45"
      by (simp add: kept_def is_space_def)
    ultimately show ?thesis
      using "2.IH"(1) True by simp
  next
    case False
    with "2.IH"(2) "2.prems" show ?thesis by simp
  qed
qed

lemma lower_kept_ident: "kept c \<Longrightarrow> \<not> is_space c \<Longrightarrow> ident_char (lower_cp c)"
  by (auto simp: kept_def ident_char_def lower_cp_def is_upper_az_def is_lower_az_def is_digit_def)

lemma clean_name_shape:
  "clean_name name \<noteq> [] \<and> list_all ident_char (clean_name name)
     \<and> is_lower_az (hd (clean_name name))"
proof (cases "name = []")
  case True
  then show ?thesis
    by (simp add: clean_name_def str_element ident_char_def is_lower_az_def)
next
  case False
  define c1 where "c1 = map lower_cp (collapse_ws (filter kept name))"
  have all1: "list_all ident_char c1"
    using collapse_ws_chars [of "filter kept name"]
    by (auto simp: c1_def list_all_iff lower_kept_ident)
  define c2 where "c2 = (if c1 \<noteq> [] \<and> \<not> isalpha (hd c1) then str ''el-'' @ c1 else c1)"
  have all2: "list_all ident_char c2"
    using all1 by (simp add: c2_def str_el ident_char_def is_lower_az_def)
  have hd2: "c2 \<noteq> [] \<Longrightarrow> is_lower_az (hd c2)"
  proof -
    assume ne: "c2 \<noteq> []"
    show ?thesis
    proof (cases "c1 \<noteq> [] \<and> \<not> isalpha (hd c1)")
      case True
      then show ?thesis by (simp add: c2_def str_el is_lower_az_def)
    next
      case False
      with ne have c1: "c1 \<noteq> []" "isalpha (hd c1)" "c2 = c1" by (auto simp: c2_def)
      from c1(1) all1 have "ident_char (hd c1)" by (cases c1) auto
      with c1(2) have "is_lower_az (hd c1)"
        by (auto simp: isalpha_def ident_char_def is_upper_az_def is_digit_def)
      with c1(3) show ?thesis by simp
    qed
  qed
  have res: "clean_name name = (if c2 \<noteq> [] then c2 else str ''element'')"
    using False by (simp add: clean_name_def Let_def c1_def c2_def)
  show ?thesis
  proof (cases "c2 = []")
    case True
    with res show ?thesis
      by (simp add: str_element ident_char_def is_lower_az_def)
  next
    case False
    with res all2 hd2 show ?thesis by simp
  qed
qed

lemma clean_name_fixed:
  assumes "s \<noteq> []" "list_all ident_char s" "is_lower_az (hd s)"
  shows "clean_name s = s"
proof -
  have f: "filter kept s = s"
    using assms(2) by (auto simp: list_all_iff ident_char_kept intro: filter_True)
  have c: "collapse_ws s = s"
    using assms(2) by (auto simp: list_all_iff ident_char_not_space intro: collapse_ws_id)
  have l: "map lower_cp s = s"
    using assms(2) by (auto simp: list_all_iff ident_char_lower intro: map_idI)
  show ?thesis
    using assms(1,3) by (simp add: clean_name_def f c l isalpha_def)
qed

text \<open>
  Claim C9. Name sanitization is idempotent: for every input string, sanitizing an
  already sanitized name returns that name unchanged.
\<close>

theorem clean_name_idempotent: "clean_name (clean_name name) = clean_name name"
  using clean_name_shape [of name] by (intro clean_name_fixed) simp_all

subsection \<open>Position and size extraction\<close>

text \<open>
  Claim C7, as stated: the position mode is \<^verbatim>\<open>absolute\<close> exactly when the horizontal and
  the vertical constraint both indicate independent positioning. The record
  \<open>stretch_h_only\<close> has only the horizontal flag set (its vertical constraint is
  \<^verbatim>\<open>TOP\<close>), and its position mode is \<^verbatim>\<open>absolute\<close>.
\<close>

theorem position_mode_both_axes_counterexample:
  "extract_position stretch_h_only = Inr \<lparr>pos_x = 0, pos_y = 0, pos_position = ''absolute''\<rparr>
   \<and> constraints stretch_h_only
       = Val \<lparr>horizontal = Some ''LEFT_RIGHT'', vertical = Some ''TOP'',
              cwidth = None, cheight = None\<rparr>
   \<and> Some ''TOP'' \<noteq> Some ''TOP_BOTTOM''"
  by (simp add: extract_position_def stretch_h_only_def)

text \<open>
  Claim C7, amended: whenever \<^verbatim>\<open>_extract_position\<close> returns, the position mode is
  \<^verbatim>\<open>absolute\<close> exactly when the horizontal constraint is \<^verbatim>\<open>LEFT_RIGHT\<close> or the vertical
  constraint is \<^verbatim>\<open>TOP_BOTTOM\<close> (one axis is enough), and \<^verbatim>\<open>relative\<close> in every other
  case, a record without constraints included.
\<close>

theorem position_mode_either_axis:
  assumes "extract_position node = Inr p"
  shows "((pos_position p = ''absolute'') =
            (\<exists>c. constraints node = Val c \<and>
                 (horizontal c = Some ''LEFT_RIGHT'' \<or> vertical c = Some ''TOP_BOTTOM'')))
         \<and> (pos_position p \<noteq> ''absolute'' \<longrightarrow> pos_position p = ''relative'')"
  using assms
  by (auto simp: extract_position_def Let_def split: field.splits sum.splits if_splits)

theorem position_mode_either_axis_witness:
  "extract_position boxed_fixed_width
     = Inr \<lparr>pos_x = 10, pos_y = 20, pos_position = ''relative''\<rparr>
   \<and> \<not> (\<exists>c. constraints boxed_fixed_width = Val c \<and>
             (horizontal c = Some ''LEFT_RIGHT'' \<or> vertical c = Some ''TOP_BOTTOM''))"
proof -
  have h: "extract_position boxed_fixed_width
             = Inr \<lparr>pos_x = 10, pos_y = 20, pos_position = ''relative''\<rparr>"
    by (simp add: extract_position_def boxed_fixed_width_def)
  from position_mode_either_axis [OF h] h show ?thesis by simp
qed

text \<open>
  Claim C8, as stated: a record without bounding-box information gets width and height 0.
  The record \<open>stretch_h_only\<close> has no bounding box, and its width and height are
  \<^verbatim>\<open>"auto"\<close>, not 0.
\<close>

theorem size_default_zero_counterexample:
  "absoluteBoundingBox stretch_h_only = Absent
   \<and> extract_size stretch_h_only
       = Inr \<lparr>width = Auto, height = Auto, width_type = ''flexible'', height_type = ''flexible''\<rparr>
   \<and> Auto \<noteq> Num 0"
  by (simp add: extract_size_def stretch_h_only_def size_type_def)

text \<open>
  Claim C8, amended: whenever \<^verbatim>\<open>_extract_size\<close> returns, a record without a bounding box
  has width and height \<^verbatim>\<open>"auto"\<close>; a record with a bounding box has the box's width and
  height, each 0 when the box lacks it. Independently, the width (height) is marked
  \<^verbatim>\<open>fixed\<close> exactly when the width (height) constraint is \<^verbatim>\<open>FIXED\<close>, and \<^verbatim>\<open>flexible\<close>
  otherwise, in particular when the record has no constraints.
\<close>

theorem size_defaults:
  assumes "extract_size node = Inr s"
  shows "(absoluteBoundingBox node = Absent \<longrightarrow> width s = Auto \<and> height s = Auto)
       \<and> (\<forall>b. absoluteBoundingBox node = Val b \<longrightarrow>
             width s = Num (case box_width b of None \<Rightarrow> 0 | Some v \<Rightarrow> v) \<and>
             height s = Num (case box_height b of None \<Rightarrow> 0 | Some v \<Rightarrow> v))
       \<and> ((width_type s = ''fixed'') =
             (\<exists>c. constraints node = Val c \<and> cwidth c = Some ''FIXED''))
       \<and> ((height_type s = ''fixed'') =
             (\<exists>c. constraints node = Val c \<and> cheight c = Some ''FIXED''))
       \<and> (width_type s \<noteq> ''fixed'' \<longrightarrow> width_type s = ''flexible'')
       \<and> (height_type s \<noteq> ''fixed'' \<longrightarrow> height_type s = ''flexible'')"
  using assms
  by (auto simp: extract_size_def size_type_def split: field.splits sum.splits if_splits)

theorem size_defaults_witness:
  "extract_size boxed_fixed_width
     = Inr \<lparr>width = Num 80, height = Num 0, width_type = ''fixed'', height_type = ''flexible''\<rparr>
   \<and> (\<exists>c. constraints boxed_fixed_width = Val c \<and> cwidth c = Some ''FIXED'')
   \<and> \<not> (\<exists>c. constraints boxed_fixed_width = Val c \<and> cheight c = Some ''FIXED'')"
proof -
  have h: "extract_size boxed_fixed_width
     = Inr \<lparr>width = Num 80, height = Num 0, width_type = ''fixed'', height_type = ''flexible''\<rparr>"
    by (simp add: extract_size_def boxed_fixed_width_def size_type_def)
  from size_defaults [OF h] h show ?thesis by simp
qed

subsection \<open>The classifier reads its children through their geometry only\<close>

text \<open>
  Each function of the classifier commutes with a map over the list of children: applied to
  \<open>map g xs\<close> it is the same function with readers composed with \<open>g\<close>, applied to \<open>xs\<close>.
\<close>

lemma insort_key_map_fuse:
  "insort_key k (g x) (map g ys) = map g (insort_key (\<lambda>a. k (g a)) x ys)"
  by (induction ys) auto

lemma sort_key_map_fuse: "sort_key k (map g xs) = map g (sort_key (\<lambda>a. k (g a)) xs)"
  by (induction xs) (auto simp: insort_key_map_fuse)

lemma adjacent_spacings_map:
  "adjacent_spacings rt pos ext (map g xs) = adjacent_spacings rt (\<lambda>a. pos (g a)) (\<lambda>a. ext (g a)) xs"
proof (induction xs rule: induct_list012)
  case (3 x y zs)
  then show ?case by (simp split: sum.splits)
qed simp_all

lemma calculate_spacing_map:
  "calculate_spacing rt pos ext (map g xs) = calculate_spacing rt (\<lambda>a. pos (g a)) (\<lambda>a. ext (g a)) xs"
  by (simp add: calculate_spacing_def sort_key_map_fuse adjacent_spacings_map)

lemma children_aligned_map:
  "children_aligned rt cross main (map g xs) = children_aligned rt (\<lambda>a. cross (g a)) (\<lambda>a. main (g a)) xs"
  by (simp add: children_aligned_def comp_def)

lemma detect_alignment_map:
  "detect_alignment rt pos ext (map g xs) = detect_alignment rt (\<lambda>a. pos (g a)) (\<lambda>a. ext (g a)) xs"
  by (auto simp: detect_alignment_def comp_def Let_def split: sum.splits)

lemma map_of_apsnd: "map_of (map (apsnd f) groups) k = map_option f (map_of groups k)"
  by (induction groups) auto

lemma add_to_group_map:
  "add_to_group k (g c) (map (apsnd (map g)) groups)
     = map (apsnd (map g)) (add_to_group k c groups)"
  by (auto simp: add_to_group_def map_of_apsnd split: option.splits)

lemma group_fold_map:
  "fold (\<lambda>child groups. add_to_group (bucket rt (pos child)) child groups) (map g xs)
        (map (apsnd (map g)) acc)
   = map (apsnd (map g))
       (fold (\<lambda>child groups. add_to_group (bucket rt (pos (g child))) child groups) xs acc)"
  by (induction xs arbitrary: acc) (simp_all add: add_to_group_map)

lemma group_by_bucket_map:
  "group_by_bucket rt pos (map g xs) = map (apsnd (map g)) (group_by_bucket rt (\<lambda>a. pos (g a)) xs)"
  using group_fold_map [of rt pos g xs "[]"] by (simp add: group_by_bucket_def)

lemma bucket_gaps_map:
  "bucket_gaps rt pos ext (map (map g) gs) = bucket_gaps rt (\<lambda>a. pos (g a)) (\<lambda>a. ext (g a)) gs"
proof (induction gs rule: induct_list012)
  case (3 x y zs)
  then show ?case by (simp add: comp_def split: sum.splits)
qed simp_all

lemma axis_gap_map:
  "axis_gap rt pos ext (map g xs) = axis_gap rt (\<lambda>a. pos (g a)) (\<lambda>a. ext (g a)) xs"
proof -
  have "sort_key fst (map (apsnd (map g)) G) = map (apsnd (map g)) (sort_key fst G)" for G :: "(int \<times> 'b list) list"
    using sort_key_map_fuse [of fst "apsnd (map g)" G] by simp
  then show ?thesis
    by (simp add: axis_gap_def group_by_bucket_map bucket_gaps_map [symmetric] comp_def)
qed

subsection \<open>What one classification writes\<close>

lemma set_auto_layout_fields [simp]:
  "nposition (set_auto_layout d f a) = nposition a"
  "nsize (set_auto_layout d f a) = nsize a"
  "is_container (set_auto_layout d f a) = is_container a"
  "grid_props (set_auto_layout d f a) = grid_props a"
  "ltype (nlayout (set_auto_layout d f a)) = ''auto-layout''"
  "ldirection (nlayout (set_auto_layout d f a)) = Some d"
  "lspacing (nlayout (set_auto_layout d f a)) = lspacing (nlayout a)"
  "flex_props (set_auto_layout d f a) = [''display'' \<mapsto> Kw ''flex'', ''flex-direction'' \<mapsto> Kw f]"
  by (simp_all add: set_auto_layout_def)

lemma set_spacing_fields [simp]:
  "nposition (set_spacing sp a) = nposition a"
  "nsize (set_spacing sp a) = nsize a"
  "is_container (set_spacing sp a) = is_container a"
  "grid_props (set_spacing sp a) = grid_props a"
  "ltype (nlayout (set_spacing sp a)) = ltype (nlayout a)"
  "ldirection (nlayout (set_spacing sp a)) = ldirection (nlayout a)"
  by (simp_all add: set_spacing_def)

lemma set_align_items_fields [simp]:
  "nposition (set_align_items al a) = nposition a"
  "nsize (set_align_items al a) = nsize a"
  "is_container (set_align_items al a) = is_container a"
  "grid_props (set_align_items al a) = grid_props a"
  "nlayout (set_align_items al a) = nlayout a"
  by (simp_all add: set_align_items_def split: option.splits)

lemma set_auto_layout_absorbs:
  "set_auto_layout d f (set_align_items al b) = set_auto_layout d f b"
  "set_auto_layout d f (set_auto_layout d f a) = set_auto_layout d f a"
  "set_spacing sp (set_auto_layout d f (set_spacing sp b)) = set_spacing sp (set_auto_layout d f b)"
  by (simp_all add: set_auto_layout_def set_align_items_def set_spacing_def split: option.splits)

lemma setters_position:
  "set_auto_layout d f (a\<lparr>nposition := p\<rparr>) = (set_auto_layout d f a)\<lparr>nposition := p\<rparr>"
  "set_spacing sp (a\<lparr>nposition := p\<rparr>) = (set_spacing sp a)\<lparr>nposition := p\<rparr>"
  "set_align_items al (a\<lparr>nposition := p\<rparr>) = (set_align_items al a)\<lparr>nposition := p\<rparr>"
  by (simp_all add: set_auto_layout_def set_align_items_def set_spacing_def split: option.splits)

lemma flex_branch_keeps:
  "flex_branch d f calc det a cs = (a1, e) \<Longrightarrow>
     nposition a1 = nposition a \<and> nsize a1 = nsize a \<and> is_container a1 = is_container a
     \<and> grid_props a1 = grid_props a"
  by (cases "calc cs"; cases "det cs") (auto simp: flex_branch_def Let_def)

lemma flex_branch_idem:
  "flex_branch d f calc det a cs = (a1, e) \<Longrightarrow> flex_branch d f calc det a1 cs = (a1, e)"
  by (cases "calc cs"; cases "det cs") (auto simp: flex_branch_def Let_def set_auto_layout_absorbs)

lemma flex_branch_position:
  "flex_branch d f calc det (a\<lparr>nposition := p\<rparr>) cs
     = (case flex_branch d f calc det a cs of (a1, e) \<Rightarrow> (a1\<lparr>nposition := p\<rparr>, e))"
  by (cases "calc cs"; cases "det cs") (simp_all add: flex_branch_def Let_def setters_position)

lemma set_grid_fields [simp]:
  "nposition (set_grid_type a) = nposition a"
  "nsize (set_grid_type a) = nsize a"
  "is_container (set_grid_type a) = is_container a"
  "flex_props (set_grid_type a) = flex_props a"
  "grid_props (set_grid_type a) = grid_props a"
  "ltype (nlayout (set_grid_type a)) = ''grid''"
  "nposition (set_grid_template c r a) = nposition a"
  "nsize (set_grid_template c r a) = nsize a"
  "is_container (set_grid_template c r a) = is_container a"
  "flex_props (set_grid_template c r a) = flex_props a"
  "nlayout (set_grid_template c r a) = nlayout a"
  "nposition (set_grid_gap k g a) = nposition a"
  "nsize (set_grid_gap k g a) = nsize a"
  "is_container (set_grid_gap k g a) = is_container a"
  "flex_props (set_grid_gap k g a) = flex_props a"
  "nlayout (set_grid_gap k g a) = nlayout a"
  by (simp_all add: set_grid_type_def set_grid_template_def set_grid_gap_def)

lemma set_grid_absorbs:
  "set_grid_template c r (set_grid_type (set_grid_gap k g b)) = set_grid_template c r (set_grid_type b)"
  "set_grid_template c r (set_grid_type (set_grid_template c r (set_grid_type a)))
     = set_grid_template c r (set_grid_type a)"
  by (simp_all add: set_grid_type_def set_grid_template_def set_grid_gap_def)

lemma set_grid_position:
  "set_grid_type (a\<lparr>nposition := p\<rparr>) = (set_grid_type a)\<lparr>nposition := p\<rparr>"
  "set_grid_template c r (a\<lparr>nposition := p\<rparr>) = (set_grid_template c r a)\<lparr>nposition := p\<rparr>"
  "set_grid_gap k g (a\<lparr>nposition := p\<rparr>) = (set_grid_gap k g a)\<lparr>nposition := p\<rparr>"
  by (simp_all add: set_grid_type_def set_grid_template_def set_grid_gap_def)

lemma grid_branch_unfold:
  "grid_branch rt a cs =
     (case calculate_grid_gaps rt cs (fst (detect_grid_dimensions rt cs)) (snd (detect_grid_dimensions rt cs)) of
        Inl e \<Rightarrow> (set_grid_template (fst (detect_grid_dimensions rt cs)) (snd (detect_grid_dimensions rt cs))
                    (set_grid_type a), Some e)
      | Inr g \<Rightarrow> (set_grid_gap ''row-gap'' (snd g) (set_grid_gap ''column-gap'' (fst g)
                    (set_grid_template (fst (detect_grid_dimensions rt cs)) (snd (detect_grid_dimensions rt cs))
                      (set_grid_type a))), None))"
  by (simp add: grid_branch_def Let_def split: prod.splits sum.splits)

lemma grid_branch_keeps:
  "grid_branch rt a cs = (a1, e) \<Longrightarrow>
     nposition a1 = nposition a \<and> nsize a1 = nsize a \<and> is_container a1 = is_container a
     \<and> flex_props a1 = flex_props a"
  by (auto simp: grid_branch_unfold split: sum.splits)

lemma grid_branch_idem: "grid_branch rt a cs = (a1, e) \<Longrightarrow> grid_branch rt a1 cs = (a1, e)"
  by (auto simp: grid_branch_unfold set_grid_absorbs split: sum.splits)

lemma grid_branch_position:
  "grid_branch rt (a\<lparr>nposition := p\<rparr>) cs
     = (case grid_branch rt a cs of (a1, e) \<Rightarrow> (a1\<lparr>nposition := p\<rparr>, e))"
  by (simp add: grid_branch_unfold set_grid_position split: sum.splits)

lemma classify_keeps:
  "classify rt a cs = (a1, e) \<Longrightarrow>
     nposition a1 = nposition a \<and> nsize a1 = nsize a \<and> is_container a1 = is_container a"
  using flex_branch_keeps grid_branch_keeps
  by (fastforce simp: classify_def split: if_splits)

lemma classify_idem: "classify rt a cs = (a1, e) \<Longrightarrow> classify rt a1 cs = (a1, e)"
  by (simp add: classify_def flex_branch_idem grid_branch_idem split: if_splits)

lemma classify_position_update:
  "classify rt (a\<lparr>nposition := p\<rparr>) cs
     = (case classify rt a cs of (a1, e) \<Rightarrow> (a1\<lparr>nposition := p\<rparr>, e))"
  by (simp add: classify_def flex_branch_position grid_branch_position)

subsection \<open>Idempotence of the analysis pass\<close>

lemma force_relative_fields [simp]:
  "pos_x (nposition (force_relative a cs)) = pos_x (nposition a)"
  "pos_y (nposition (force_relative a cs)) = pos_y (nposition a)"
  "nsize (force_relative a cs) = nsize a"
  "is_container (force_relative a cs) = is_container a"
  "flex_props (force_relative a cs) = flex_props a"
  "grid_props (force_relative a cs) = grid_props a"
  "nlayout (force_relative a cs) = nlayout a"
  by (simp_all add: force_relative_def Let_def)

lemma force_relative_mode:
  "pos_position (nposition (force_relative a cs)) = ''absolute''
     \<Longrightarrow> pos_position (nposition a) = ''absolute''"
  by (simp add: force_relative_def Let_def split: if_splits)

lemma analyze_node_layout_cases:
  "analyze_node_layout rt a cs =
     (if \<not> is_container a \<or> cs = [] then (a, None)
      else if snd (classify rt a cs) = None then (force_relative (fst (classify rt a cs)) cs, None)
      else classify rt a cs)"
  by (cases "classify rt a cs") (auto simp: analyze_node_layout_def split: option.splits)

lemma analyze_node_layout_keeps:
  assumes "analyze_node_layout rt a cs = (a2, e)"
  shows "pos_x (nposition a2) = pos_x (nposition a) \<and> pos_y (nposition a2) = pos_y (nposition a)
         \<and> nsize a2 = nsize a \<and> is_container a2 = is_container a
         \<and> (pos_position (nposition a2) = ''absolute'' \<longrightarrow> pos_position (nposition a) = ''absolute'')"
proof -
  obtain a1 e1 where c: "classify rt a cs = (a1, e1)" by (cases "classify rt a cs")
  note k = classify_keeps [OF c]
  show ?thesis
    using assms k force_relative_mode [of a1 cs]
    by (auto simp: analyze_node_layout_cases c split: if_splits)
qed

lemma analyze_layout_node_attrs:
  "attrs_of (analyze_layout_node rt (Node a cs)) = fst (analyze_node_layout rt a cs)"
  by (cases "analyze_node_layout rt a cs") (auto split: option.splits)

lemma analyze_layout_node_geometry [simp]:
  "x_of (analyze_layout_node rt c) = x_of c"
  "y_of (analyze_layout_node rt c) = y_of c"
  "width_of (analyze_layout_node rt c) = width_of c"
  "height_of (analyze_layout_node rt c) = height_of c"
proof -
  obtain a cs where c: "c = Node a cs" by (cases c)
  obtain a2 e where r: "analyze_node_layout rt a cs = (a2, e)" by (cases "analyze_node_layout rt a cs")
  note k = analyze_node_layout_keeps [OF r]
  show "x_of (analyze_layout_node rt c) = x_of c" "y_of (analyze_layout_node rt c) = y_of c"
    "width_of (analyze_layout_node rt c) = width_of c" "height_of (analyze_layout_node rt c) = height_of c"
    using k unfolding c x_of_def y_of_def width_of_def height_of_def analyze_layout_node_attrs r
    by simp_all
qed

lemma analyze_layout_node_mode:
  "mode_of (analyze_layout_node rt c) = ''absolute'' \<Longrightarrow> mode_of c = ''absolute''"
proof -
  obtain a cs where c: "c = Node a cs" by (cases c)
  obtain a2 e where r: "analyze_node_layout rt a cs = (a2, e)" by (cases "analyze_node_layout rt a cs")
  note k = analyze_node_layout_keeps [OF r]
  assume "mode_of (analyze_layout_node rt c) = ''absolute''"
  then show ?thesis
    using k unfolding c mode_of_def analyze_layout_node_attrs r by simp
qed

lemma axis_gap_after_analysis:
  "axis_gap rt x_of width_of (map (analyze_layout_node rt) cs) = axis_gap rt x_of width_of cs"
  "axis_gap rt y_of height_of (map (analyze_layout_node rt) cs) = axis_gap rt y_of height_of cs"
  by (simp_all add: axis_gap_map)

lemma readers_after_analysis:
  "children_aligned_horizontally rt (map (analyze_layout_node rt) cs) = children_aligned_horizontally rt cs"
  "children_aligned_vertically rt (map (analyze_layout_node rt) cs) = children_aligned_vertically rt cs"
  "calculate_horizontal_spacing rt (map (analyze_layout_node rt) cs) = calculate_horizontal_spacing rt cs"
  "calculate_vertical_spacing rt (map (analyze_layout_node rt) cs) = calculate_vertical_spacing rt cs"
  "detect_vertical_alignment rt (map (analyze_layout_node rt) cs) = detect_vertical_alignment rt cs"
  "detect_horizontal_alignment rt (map (analyze_layout_node rt) cs) = detect_horizontal_alignment rt cs"
  "appears_to_be_grid rt (map (analyze_layout_node rt) cs) = appears_to_be_grid rt cs"
  "detect_grid_dimensions rt (map (analyze_layout_node rt) cs) = detect_grid_dimensions rt cs"
  "calculate_grid_gaps rt (map (analyze_layout_node rt) cs) c r = calculate_grid_gaps rt cs c r"
  unfolding calculate_grid_gaps_def axis_gap_after_analysis
  by (simp_all add: children_aligned_horizontally_def children_aligned_vertically_def
      calculate_horizontal_spacing_def calculate_vertical_spacing_def
      detect_vertical_alignment_def detect_horizontal_alignment_def
      appears_to_be_grid_def detect_grid_dimensions_def
      children_aligned_map calculate_spacing_map detect_alignment_map comp_def)

lemma classify_geometry:
  "classify rt a (map (analyze_layout_node rt) cs) = classify rt a cs"
  unfolding classify_def flex_branch_def grid_branch_def readers_after_analysis by (rule refl)

lemma force_relative_again:
  "force_relative (force_relative a cs) (map (analyze_layout_node rt) cs) = force_relative a cs"
proof (cases "filter (\<lambda>c. mode_of c = ''absolute'') (map (analyze_layout_node rt) cs) = []")
  case True
  then show ?thesis by (simp add: force_relative_def [of _ "map (analyze_layout_node rt) cs"])
next
  case False
  then obtain c where "c \<in> set cs" "mode_of (analyze_layout_node rt c) = ''absolute''"
    by (auto simp: filter_empty_conv)
  then have "filter (\<lambda>c. mode_of c = ''absolute'') cs \<noteq> []"
    by (auto simp: filter_empty_conv dest: analyze_layout_node_mode)
  then show ?thesis
    by (simp add: force_relative_def Let_def)
qed

lemma classify_force_relative:
  assumes "classify rt a1 cs = (a1, e)"
  shows "classify rt (force_relative a1 cs') cs = (force_relative a1 cs', e)"
  using assms by (simp add: force_relative_def Let_def classify_position_update)

lemma analyze_node_layout_again:
  assumes "analyze_node_layout rt a cs = (a2, None)"
  shows "analyze_node_layout rt a2 (map (analyze_layout_node rt) cs) = (a2, None)"
proof (cases "\<not> is_container a \<or> cs = []")
  case True
  with assms show ?thesis by (auto simp: analyze_node_layout_cases)
next
  case False
  obtain a1 e1 where c: "classify rt a cs = (a1, e1)" by (cases "classify rt a cs")
  from assms False c have e1: "e1 = None" and a2: "a2 = force_relative a1 cs"
    by (auto simp: analyze_node_layout_cases split: if_splits)
  have k: "is_container a1 = is_container a" using classify_keeps [OF c] by simp
  have "classify rt a1 cs = (a1, None)" using classify_idem [OF c] e1 by simp
  then have c2: "classify rt a2 cs = (a2, None)"
    unfolding a2 by (rule classify_force_relative)
  show ?thesis
    using False k c2
    by (simp add: analyze_node_layout_cases classify_geometry a2 force_relative_again)
qed

lemma analyze_node_layout_again_raised:
  assumes "analyze_node_layout rt a cs = (a2, Some e)"
  shows "analyze_node_layout rt a2 cs = (a2, Some e)"
proof -
  obtain a1 e1 where c: "classify rt a cs = (a1, e1)" by (cases "classify rt a cs")
  from assms c have ne: "is_container a" "cs \<noteq> []" and e1: "e1 = Some e" and a2: "a2 = a1"
    by (auto simp: analyze_node_layout_cases split: if_splits)
  have k: "is_container a1 = is_container a" using classify_keeps [OF c] by simp
  have "classify rt a1 cs = (a1, Some e)" using classify_idem [OF c] e1 by simp
  then show ?thesis using ne k a2 by (simp add: analyze_node_layout_cases)
qed

lemma analyze_layout_node_idem:
  "analyze_layout_node rt (analyze_layout_node rt t) = analyze_layout_node rt t"
proof (induction t)
  case (Node a cs)
  obtain a2 e where r: "analyze_node_layout rt a cs = (a2, e)" by (cases "analyze_node_layout rt a cs")
  show ?case
  proof (cases e)
    case None
    from analyze_node_layout_again [OF r [unfolded None]] Node.IH
    show ?thesis using r None by simp
  next
    case (Some err)
    from analyze_node_layout_again_raised [OF r [unfolded Some]]
    show ?thesis using r Some by simp
  qed
qed

text \<open>
  Claim C10. The layout analysis pass is idempotent: on every tree of nodes, a second run of
  \<^verbatim>\<open>analyze_layout\<close> leaves every node (its layout record, flex props, grid props and
  position included) exactly as the first run left it.
\<close>

theorem analyze_layout_idempotent:
  "analyze_layout rt (analyze_layout rt nodes) = analyze_layout rt nodes"
  by (simp add: analyze_layout_def analyze_layout_node_idem)

subsection \<open>Priority of the branches and agreement of type and props\<close>

lemma flex_props_lookup:
  "flex_props (set_spacing sp a) k
     = (if 0 < sp \<and> k = ''gap'' then Some (Px sp) else flex_props a k)"
  "flex_props (set_align_items al a) k
     = (case al of None \<Rightarrow> flex_props a k
        | Some v \<Rightarrow> if v \<noteq> [] \<and> k = ''align-items'' then Some (Kw v) else flex_props a k)"
  by (simp_all add: set_spacing_def set_align_items_def split: option.splits)

lemma grid_props_lookup:
  "grid_props (set_grid_gap key g a) k
     = (if 0 < g \<and> k = key then Some (Px g) else grid_props a k)"
  "grid_props (set_grid_template c r a)
     = [''display'' \<mapsto> Kw ''grid'', ''grid-template-columns'' \<mapsto> RepeatFr c,
        ''grid-template-rows'' \<mapsto> RepeatAuto r]"
  by (simp_all add: set_grid_gap_def set_grid_template_def)

lemma grid_layout_fields [simp]:
  "ldirection (nlayout (set_grid_type a)) = ldirection (nlayout a)"
  "lspacing (nlayout (set_grid_type a)) = lspacing (nlayout a)"
  by (simp_all add: set_grid_type_def)

lemma flex_branch_writes:
  assumes "flex_branch d f calc det a cs = (a1, e)"
  shows "ltype (nlayout a1) = ''auto-layout'' \<and> ldirection (nlayout a1) = Some d
         \<and> flex_props a1 ''display'' = Some (Kw ''flex'')
         \<and> flex_props a1 ''flex-direction'' = Some (Kw f)
         \<and> grid_props a1 = grid_props a"
  using assms
  by (cases "calc cs"; cases "det cs")
     (auto simp: flex_branch_def Let_def flex_props_lookup split: option.splits)

lemma grid_branch_writes:
  assumes "grid_branch rt a cs = (a1, e)"
  shows "ltype (nlayout a1) = ''grid'' \<and> ldirection (nlayout a1) = ldirection (nlayout a)
         \<and> lspacing (nlayout a1) = lspacing (nlayout a)
         \<and> grid_props a1 ''display'' = Some (Kw ''grid'')
         \<and> grid_props a1 ''grid-template-columns'' = Some (RepeatFr (fst (detect_grid_dimensions rt cs)))
         \<and> grid_props a1 ''grid-template-rows'' = Some (RepeatAuto (snd (detect_grid_dimensions rt cs)))
         \<and> flex_props a1 = flex_props a"
  using assms
  by (auto simp: grid_branch_unfold grid_props_lookup split: sum.splits)

lemma has_entry_nonempty: "m k = Some v \<Longrightarrow> m \<noteq> Map.empty"
  by auto

lemma classify_consistent:
  assumes "fresh a" "classify rt a cs = (a1, e)"
  shows "consistent a1"
proof -
  consider (row) "children_aligned_horizontally rt cs"
    | (col) "\<not> children_aligned_horizontally rt cs" "children_aligned_vertically rt cs"
    | (grid) "\<not> children_aligned_horizontally rt cs" "\<not> children_aligned_vertically rt cs"
             "appears_to_be_grid rt cs"
    | (none) "\<not> children_aligned_horizontally rt cs" "\<not> children_aligned_vertically rt cs"
             "\<not> appears_to_be_grid rt cs"
    by blast
  then show ?thesis
  proof cases
    case row
    with assms(2) have "flex_branch ''horizontal'' ''row'' (calculate_horizontal_spacing rt)
        (detect_vertical_alignment rt) a cs = (a1, e)" by (simp add: classify_def)
    from flex_branch_writes [OF this] assms(1) show ?thesis
      by (simp add: consistent_def fresh_def)
  next
    case col
    with assms(2) have "flex_branch ''vertical'' ''column'' (calculate_vertical_spacing rt)
        (detect_horizontal_alignment rt) a cs = (a1, e)" by (simp add: classify_def)
    from flex_branch_writes [OF this] assms(1) show ?thesis
      by (simp add: consistent_def fresh_def)
  next
    case grid
    with assms(2) have "grid_branch rt a cs = (a1, e)" by (simp add: classify_def)
    from grid_branch_writes [OF this] assms(1) show ?thesis
      by (simp add: consistent_def fresh_def)
  next
    case none
    with assms show ?thesis by (simp add: classify_def consistent_def fresh_def)
  qed
qed

lemma force_relative_consistent [simp]: "consistent (force_relative a cs) = consistent a"
  by (simp add: consistent_def)

lemma fresh_consistent: "fresh a \<Longrightarrow> consistent a"
  by (simp add: fresh_def consistent_def)

lemma analyze_node_layout_consistent:
  assumes "fresh a" "analyze_node_layout rt a cs = (a2, e)"
  shows "consistent a2"
proof -
  obtain a1 e1 where c: "classify rt a cs = (a1, e1)" by (cases "classify rt a cs")
  from classify_consistent [OF assms(1) c] assms fresh_consistent [OF assms(1)] show ?thesis
    by (auto simp: analyze_node_layout_cases c split: if_splits)
qed

lemma all_nodes_mono:
  "all_nodes P t \<Longrightarrow> (\<And>a. P a \<Longrightarrow> Q a) \<Longrightarrow> all_nodes Q t"
  by (induction t) (auto simp: list_all_iff)

lemma analyze_layout_node_consistent:
  "all_nodes fresh t \<Longrightarrow> all_nodes consistent (analyze_layout_node rt t)"
proof (induction t)
  case (Node a cs)
  obtain a2 e where r: "analyze_node_layout rt a cs = (a2, e)" by (cases "analyze_node_layout rt a cs")
  from Node.prems have fa: "fresh a" and fcs: "list_all (all_nodes fresh) cs" by simp_all
  have c2: "consistent a2" by (rule analyze_node_layout_consistent [OF fa r])
  show ?case
  proof (cases e)
    case None
    from Node.IH fcs have "list_all (all_nodes consistent) (map (analyze_layout_node rt) cs)"
      by (auto simp: list_all_iff)
    with c2 r None show ?thesis by simp
  next
    case (Some err)
    from fcs have "list_all (all_nodes consistent) cs"
      by (auto simp: list_all_iff intro: all_nodes_mono fresh_consistent)
    with c2 r Some show ?thesis by simp
  qed
qed

lemma few_children:
  "length cs < 2 \<Longrightarrow> \<not> children_aligned_horizontally rt cs \<and> \<not> children_aligned_vertically rt cs"
  "length cs < 4 \<Longrightarrow> \<not> appears_to_be_grid rt cs"
  by (simp_all add: children_aligned_horizontally_def children_aligned_vertically_def
      children_aligned_def appears_to_be_grid_def)

lemma classify_fallback:
  "\<not> children_aligned_horizontally rt cs \<Longrightarrow> \<not> children_aligned_vertically rt cs \<Longrightarrow>
   \<not> appears_to_be_grid rt cs \<Longrightarrow> classify rt a cs = (a, None)"
  by (simp add: classify_def)

lemma analyze_node_layout_fallback:
  assumes "\<not> children_aligned_horizontally rt cs" "\<not> children_aligned_vertically rt cs"
    "\<not> appears_to_be_grid rt cs"
  shows "nlayout (fst (analyze_node_layout rt a cs)) = nlayout a
       \<and> flex_props (fst (analyze_node_layout rt a cs)) = flex_props a
       \<and> grid_props (fst (analyze_node_layout rt a cs)) = grid_props a"
  using classify_fallback [OF assms] by (simp add: analyze_node_layout_cases)

lemma analyze_node_layout_row:
  assumes "is_container a" "children_aligned_horizontally rt cs"
  shows "ltype (nlayout (fst (analyze_node_layout rt a cs))) = ''auto-layout''
       \<and> ldirection (nlayout (fst (analyze_node_layout rt a cs))) = Some ''horizontal''
       \<and> flex_props (fst (analyze_node_layout rt a cs)) ''display'' = Some (Kw ''flex'')
       \<and> flex_props (fst (analyze_node_layout rt a cs)) ''flex-direction'' = Some (Kw ''row'')"
proof -
  from assms(2) have ne: "cs \<noteq> []"
    by (auto simp: children_aligned_horizontally_def children_aligned_def)
  obtain a1 e where c: "classify rt a cs = (a1, e)" by (cases "classify rt a cs")
  with assms(2) have "flex_branch ''horizontal'' ''row'' (calculate_horizontal_spacing rt)
        (detect_vertical_alignment rt) a cs = (a1, e)" by (simp add: classify_def)
  from flex_branch_writes [OF this] assms(1) ne c show ?thesis
    by (simp add: analyze_node_layout_cases)
qed

lemma analyze_node_layout_column:
  assumes "is_container a" "\<not> children_aligned_horizontally rt cs" "children_aligned_vertically rt cs"
  shows "ltype (nlayout (fst (analyze_node_layout rt a cs))) = ''auto-layout''
       \<and> ldirection (nlayout (fst (analyze_node_layout rt a cs))) = Some ''vertical''
       \<and> flex_props (fst (analyze_node_layout rt a cs)) ''display'' = Some (Kw ''flex'')
       \<and> flex_props (fst (analyze_node_layout rt a cs)) ''flex-direction'' = Some (Kw ''column'')"
proof -
  from assms(3) have ne: "cs \<noteq> []"
    by (auto simp: children_aligned_vertically_def children_aligned_def)
  obtain a1 e where c: "classify rt a cs = (a1, e)" by (cases "classify rt a cs")
  with assms(2,3) have "flex_branch ''vertical'' ''column'' (calculate_vertical_spacing rt)
        (detect_horizontal_alignment rt) a cs = (a1, e)" by (simp add: classify_def)
  from flex_branch_writes [OF this] assms(1) ne c show ?thesis
    by (simp add: analyze_node_layout_cases)
qed

lemma analyze_node_layout_grid:
  assumes "is_container a" "\<not> children_aligned_horizontally rt cs"
    "\<not> children_aligned_vertically rt cs" "appears_to_be_grid rt cs"
  shows "ltype (nlayout (fst (analyze_node_layout rt a cs))) = ''grid''
       \<and> grid_props (fst (analyze_node_layout rt a cs)) ''display'' = Some (Kw ''grid'')
       \<and> grid_props (fst (analyze_node_layout rt a cs)) ''grid-template-columns''
           = Some (RepeatFr (fst (detect_grid_dimensions rt cs)))
       \<and> grid_props (fst (analyze_node_layout rt a cs)) ''grid-template-rows''
           = Some (RepeatAuto (snd (detect_grid_dimensions rt cs)))
       \<and> flex_props (fst (analyze_node_layout rt a cs)) = flex_props a"
proof -
  from assms(4) have ne: "cs \<noteq> []"
    by (auto simp: appears_to_be_grid_def)
  obtain a1 e where c: "classify rt a cs = (a1, e)" by (cases "classify rt a cs")
  with assms(2,3,4) have "grid_branch rt a cs = (a1, e)" by (simp add: classify_def)
  from grid_branch_writes [OF this] assms(1) ne c show ?thesis
    by (simp add: analyze_node_layout_cases)
qed

lemma analyze_node_layout_unchanged:
  assumes "\<not> is_container a \<or> cs = []"
  shows "analyze_node_layout rt a cs = (a, None)"
  using assms by (auto simp: analyze_node_layout_cases)


lemma extract_layout_fields:
  "ltype (extract_layout rt r) = (if layoutMode r = None then ''default'' else ''auto-layout'')"
  "lspacing (extract_layout rt r)
     = (case layoutMode r of None \<Rightarrow> 0
        | Some m \<Rightarrow> (case itemSpacing r of None \<Rightarrow> 0 | Some v \<Rightarrow> v))"
  by (simp_all add: extract_layout_def Let_def split: option.splits)

lemma AngularNode_init_fields:
  assumes "AngularNode_init rt r = Inr a"
  shows "flex_props a = Map.empty" "grid_props a = Map.empty"
    "nlayout a = extract_layout rt r" "is_container a = determine_if_container r"
    "nid a = (case fid r of None \<Rightarrow> [] | Some i \<Rightarrow> i)"
  using assms by (auto simp: AngularNode_init_def split: sum.splits option.splits)

lemma AngularNode_init_fresh: "AngularNode_init rt r = Inr a \<Longrightarrow> fresh a"
  by (simp add: fresh_def AngularNode_init_fields)

lemma one_child_unchanged:
  assumes "length cs = 1"
  shows "nlayout (fst (analyze_node_layout rt a cs)) = nlayout a
       \<and> flex_props (fst (analyze_node_layout rt a cs)) = flex_props a
       \<and> grid_props (fst (analyze_node_layout rt a cs)) = grid_props a"
  using assms few_children [of cs rt] by (intro analyze_node_layout_fallback) simp_all

lemma flex_branch_grid_props:
  assumes "is_container a" "cs \<noteq> []"
    "classify rt a cs = flex_branch d f calc det a cs"
  shows "grid_props (fst (analyze_node_layout rt a cs)) = grid_props a"
proof -
  obtain a1 e where c: "flex_branch d f calc det a cs = (a1, e)"
    by (cases "flex_branch d f calc det a cs")
  from flex_branch_writes [OF c] assms c show ?thesis
    by (simp add: analyze_node_layout_cases)
qed

lemma row_keeps_grid_props:
  assumes "is_container a" "children_aligned_horizontally rt cs"
  shows "grid_props (fst (analyze_node_layout rt a cs)) = grid_props a"
proof -
  from assms(2) have ne: "cs \<noteq> []"
    by (auto simp: children_aligned_horizontally_def children_aligned_def)
  from assms(2) show ?thesis
    by (intro flex_branch_grid_props [OF assms(1) ne]) (simp add: classify_def)
qed

lemma column_keeps_grid_props:
  assumes "is_container a" "\<not> children_aligned_horizontally rt cs"
    "children_aligned_vertically rt cs"
  shows "grid_props (fst (analyze_node_layout rt a cs)) = grid_props a"
proof -
  from assms(3) have ne: "cs \<noteq> []"
    by (auto simp: children_aligned_vertically_def children_aligned_def)
  from assms(2,3) show ?thesis
    by (intro flex_branch_grid_props [OF assms(1) ne]) (simp add: classify_def)
qed

lemma exact_ops [simp]:
  "py_add exact a b = a + b" "py_sub exact a b = a - b" "py_truediv exact a b = a / b"
  "py_sum exact vs = sum_list vs"
  by (simp_all add: exact_def)

lemma leaf_geometry [simp]:
  "x_of (leaf x y w h) = x" "y_of (leaf x y w h) = y"
  "width_of (leaf x y w h) = Num w" "height_of (leaf x y w h) = Num h"
  "mode_of (leaf x y w h) = ''relative''"
  by (simp_all add: leaf_def x_of_def y_of_def width_of_def height_of_def mode_of_def)

lemma py_round_of_int [simp]: "py_round (of_int n) = n"
  by (simp add: py_round_def)

lemma bucket_exact_tens [simp]: "bucket exact (of_int n * 10) = n * 10"
  using py_round_of_int [of n] by (simp add: bucket_def del: py_round_of_int)

lemma built_frames:
  "AngularNode_init exact plain_frame = Inr (built plain_frame)"
  "AngularNode_init exact auto_frame = Inr (built auto_frame)"
  "is_container (built plain_frame)" "is_container (built auto_frame)"
  by (simp_all add: built_def AngularNode_init_def extract_position_def extract_size_def
      determine_if_container_def plain_frame_def auto_frame_def)

text \<open>
  Claim C2 does not hold as stated. The constructor gives a node whose record has the key
  \<^verbatim>\<open>layoutMode\<close> the layout type \<^verbatim>\<open>auto-layout\<close>, and a container with exactly one child
  keeps the layout record that it has: the frame built from the record \<open>auto_frame\<close>, with
  one child, has layout type \<^verbatim>\<open>auto-layout\<close> after the analysis, not \<^verbatim>\<open>default\<close>.
\<close>

theorem one_child_auto_layout_counterexample:
  "AngularNode_init exact auto_frame = Inr (built auto_frame)
   \<and> is_container (built auto_frame)
   \<and> length [leaf 10 20 50 30] = 1
   \<and> ltype (nlayout (fst (analyze_node_layout exact (built auto_frame) [leaf 10 20 50 30])))
       = ''auto-layout''"
proof -
  have "nlayout (fst (analyze_node_layout exact (built auto_frame) [leaf 10 20 50 30]))
          = nlayout (built auto_frame)"
    using one_child_unchanged [of "[leaf 10 20 50 30]" exact "built auto_frame"] by simp
  moreover have "ltype (nlayout (built auto_frame)) = ''auto-layout''"
    using AngularNode_init_fields(3) [OF built_frames(2)]
    by (simp add: extract_layout_fields auto_frame_def plain_frame_def)
  ultimately show ?thesis using built_frames by simp
qed

text \<open>
  Claim C2, amended. The classifier tries row, column, grid and default in this order and
  the first match wins: a container whose children pass the row test becomes a row (and its
  grid props are left alone) whatever the other tests say; one whose children fail the row
  test and pass the column test becomes a column; one whose children fail both and pass the
  grid test becomes a grid (and its flex props are left alone); when all three tests fail,
  the layout record and the props are left as they are. Fewer than 2 children pass neither
  the row nor the column test and fewer than 4 never pass the grid test, so a node with
  exactly 1 child keeps its layout record and its props: if it comes from the constructor,
  its layout type is the one that the constructor gave it, \<^verbatim>\<open>default\<close> when the raw record
  has no key \<^verbatim>\<open>layoutMode\<close> and \<^verbatim>\<open>auto-layout\<close> when it has one, and it has no flex and no
  grid props. A node from the constructor has no flex and no grid props; and after the
  analysis of a tree of such nodes every node is consistent: its grid props are non-empty
  only under layout type \<^verbatim>\<open>grid\<close>, its flex props only under direction \<^verbatim>\<open>horizontal\<close> or
  \<^verbatim>\<open>vertical\<close>, and never both.
\<close>

theorem classification_priority_and_consistency:
  "(let a' = fst (analyze_node_layout rt a cs) in
      (is_container a \<and> children_aligned_horizontally rt cs \<longrightarrow>
         ltype (nlayout a') = ''auto-layout'' \<and> ldirection (nlayout a') = Some ''horizontal''
         \<and> flex_props a' ''flex-direction'' = Some (Kw ''row'')
         \<and> grid_props a' = grid_props a)
    \<and> (is_container a \<and> \<not> children_aligned_horizontally rt cs
         \<and> children_aligned_vertically rt cs \<longrightarrow>
         ltype (nlayout a') = ''auto-layout'' \<and> ldirection (nlayout a') = Some ''vertical''
         \<and> flex_props a' ''flex-direction'' = Some (Kw ''column'')
         \<and> grid_props a' = grid_props a)
    \<and> (is_container a \<and> \<not> children_aligned_horizontally rt cs
         \<and> \<not> children_aligned_vertically rt cs \<and> appears_to_be_grid rt cs \<longrightarrow>
         ltype (nlayout a') = ''grid'' \<and> grid_props a' ''display'' = Some (Kw ''grid'')
         \<and> flex_props a' = flex_props a)
    \<and> (\<not> children_aligned_horizontally rt cs \<and> \<not> children_aligned_vertically rt cs
         \<and> \<not> appears_to_be_grid rt cs \<longrightarrow>
         nlayout a' = nlayout a \<and> flex_props a' = flex_props a \<and> grid_props a' = grid_props a)
    \<and> (length cs = 1 \<longrightarrow>
         nlayout a' = nlayout a \<and> flex_props a' = flex_props a \<and> grid_props a' = grid_props a)
    \<and> (length cs = 1 \<and> AngularNode_init rt r = Inr a \<longrightarrow>
         ltype (nlayout a') = (if layoutMode r = None then ''default'' else ''auto-layout'')
         \<and> fresh a'))
   \<and> (length cs < 2 \<longrightarrow>
        \<not> children_aligned_horizontally rt cs \<and> \<not> children_aligned_vertically rt cs)
   \<and> (length cs < 4 \<longrightarrow> \<not> appears_to_be_grid rt cs)
   \<and> (AngularNode_init rt r = Inr a \<longrightarrow> fresh a)
   \<and> (all_nodes fresh t \<longrightarrow> all_nodes consistent (analyze_layout_node rt t))"
proof -
  have built: "ltype (nlayout a) = (if layoutMode r = None then ''default'' else ''auto-layout'')
      \<and> fresh a" if "AngularNode_init rt r = Inr a"
    using AngularNode_init_fields(3) [OF that] AngularNode_init_fresh [OF that]
    by (simp add: extract_layout_fields)
  show ?thesis
    unfolding Let_def
    using analyze_node_layout_row [of a rt cs] analyze_node_layout_column [of a rt cs]
      analyze_node_layout_grid [of a rt cs] analyze_node_layout_fallback [of rt cs a]
      row_keeps_grid_props [of a rt cs] column_keeps_grid_props [of a rt cs]
      few_children [of cs rt] analyze_layout_node_consistent [of t rt]
      one_child_unchanged [of cs rt a] built
    by (simp add: fresh_def)
qed

lemma tests_on_examples:
  "children_aligned_horizontally exact row3"
  "\<not> children_aligned_horizontally exact column3"
  "children_aligned_vertically exact column3"
  "\<not> children_aligned_horizontally exact grid6"
  "\<not> children_aligned_vertically exact grid6"
  "appears_to_be_grid exact grid6"
  "children_aligned_horizontally exact row_and_grid4"
  "appears_to_be_grid exact row_and_grid4"
  "\<not> children_aligned_horizontally exact column_and_grid4"
  "children_aligned_vertically exact column_and_grid4"
  "appears_to_be_grid exact column_and_grid4"
  by (simp_all add: children_aligned_horizontally_def children_aligned_vertically_def
      children_aligned_def appears_to_be_grid_def row3_def column3_def grid6_def
      row_and_grid4_def column_and_grid4_def bucket_exact_tens [of 0, simplified]
      bucket_exact_tens [of 1, simplified] bucket_exact_tens [of 10, simplified]
      bucket_exact_tens [of 15, simplified] bucket_exact_tens [of 20, simplified]
      bucket_exact_tens [of 30, simplified] card_insert_if)

lemma frame_facts: "is_container frame" "fresh frame" "grid_props frame = Map.empty"
  "flex_props frame = Map.empty"
  by (simp_all add: frame_def fresh_def)

theorem classification_priority_and_consistency_witness:
  "ldirection (nlayout (fst (analyze_node_layout exact frame row3))) = Some ''horizontal''
   \<and> ldirection (nlayout (fst (analyze_node_layout exact frame column3))) = Some ''vertical''
   \<and> ltype (nlayout (fst (analyze_node_layout exact frame grid6))) = ''grid''
   \<and> children_aligned_horizontally exact row_and_grid4 \<and> appears_to_be_grid exact row_and_grid4
   \<and> ldirection (nlayout (fst (analyze_node_layout exact frame row_and_grid4)))
       = Some ''horizontal''
   \<and> grid_props (fst (analyze_node_layout exact frame row_and_grid4)) = Map.empty
   \<and> children_aligned_vertically exact column_and_grid4
   \<and> appears_to_be_grid exact column_and_grid4
   \<and> ldirection (nlayout (fst (analyze_node_layout exact frame column_and_grid4)))
       = Some ''vertical''
   \<and> grid_props (fst (analyze_node_layout exact frame column_and_grid4)) = Map.empty
   \<and> ltype (nlayout (fst (analyze_node_layout exact (built plain_frame) [leaf 10 20 50 30])))
       = ''default''
   \<and> ltype (nlayout (fst (analyze_node_layout exact (built auto_frame) [leaf 10 20 50 30])))
       = ''auto-layout''
   \<and> fresh (fst (analyze_node_layout exact (built auto_frame) [leaf 10 20 50 30]))
   \<and> all_nodes consistent
       (analyze_layout_node exact (Node frame [Node frame row3, Node frame grid6]))"
proof -
  let ?t = "Node frame [Node frame row3, Node frame grid6]"
  have f: "all_nodes fresh ?t"
    by (simp add: frame_def row3_def grid6_def leaf_def fresh_def)
  have m: "layoutMode plain_frame = None" "layoutMode auto_frame \<noteq> None"
    by (simp_all add: plain_frame_def auto_frame_def)
  have row: "ldirection (nlayout (fst (analyze_node_layout exact frame row3)))
      = Some ''horizontal''"
    using classification_priority_and_consistency [of exact frame row3 plain_frame ?t]
      tests_on_examples(1) frame_facts(1)
    by (simp add: Let_def del: analyze_layout_node.simps all_nodes.simps)
  have col: "ldirection (nlayout (fst (analyze_node_layout exact frame column3)))
      = Some ''vertical''"
    using classification_priority_and_consistency [of exact frame column3 plain_frame ?t]
      tests_on_examples(2,3) frame_facts(1)
    by (simp add: Let_def del: analyze_layout_node.simps all_nodes.simps)
  have grid: "ltype (nlayout (fst (analyze_node_layout exact frame grid6))) = ''grid''"
    using classification_priority_and_consistency [of exact frame grid6 plain_frame ?t]
      tests_on_examples(4,5,6) frame_facts(1)
    by (simp add: Let_def del: analyze_layout_node.simps all_nodes.simps)
  have both_row: "ldirection (nlayout (fst (analyze_node_layout exact frame row_and_grid4)))
        = Some ''horizontal''
      \<and> grid_props (fst (analyze_node_layout exact frame row_and_grid4)) = Map.empty"
    using classification_priority_and_consistency
        [of exact frame row_and_grid4 plain_frame ?t]
      tests_on_examples(7) frame_facts(1,3)
    by (simp add: Let_def del: analyze_layout_node.simps all_nodes.simps)
  have both_col: "ldirection (nlayout (fst (analyze_node_layout exact frame column_and_grid4)))
        = Some ''vertical''
      \<and> grid_props (fst (analyze_node_layout exact frame column_and_grid4)) = Map.empty"
    using classification_priority_and_consistency
        [of exact frame column_and_grid4 plain_frame ?t]
      tests_on_examples(9,10) frame_facts(1,3)
    by (simp add: Let_def del: analyze_layout_node.simps all_nodes.simps)
  have one_plain:
    "ltype (nlayout (fst (analyze_node_layout exact (built plain_frame) [leaf 10 20 50 30])))
       = ''default''"
    using classification_priority_and_consistency
        [of exact "built plain_frame" "[leaf 10 20 50 30]" plain_frame ?t]
      built_frames(1) m(1)
    by (auto simp: Let_def simp del: analyze_layout_node.simps all_nodes.simps)
  have one_auto:
    "ltype (nlayout (fst (analyze_node_layout exact (built auto_frame) [leaf 10 20 50 30])))
       = ''auto-layout''
     \<and> fresh (fst (analyze_node_layout exact (built auto_frame) [leaf 10 20 50 30]))"
    using classification_priority_and_consistency
        [of exact "built auto_frame" "[leaf 10 20 50 30]" auto_frame ?t]
      built_frames(2) m(2)
    by (auto simp: Let_def simp del: analyze_layout_node.simps all_nodes.simps)
  have tree: "all_nodes consistent (analyze_layout_node exact ?t)"
    using classification_priority_and_consistency [of exact frame row3 plain_frame ?t] f
    by (simp add: Let_def del: analyze_layout_node.simps all_nodes.simps)
  from row col grid both_row both_col one_plain one_auto tree tests_on_examples(7,8,10,11)
  show ?thesis by blast
qed

subsection \<open>The row branch: gap and cross-axis alignment\<close>












lemma lspacing_fields [simp]:
  "lspacing (nlayout (set_spacing sp a)) = (if 0 < sp then sp else lspacing (nlayout a))"
  "lspacing (nlayout (set_align_items al a)) = lspacing (nlayout a)"
  by (simp_all add: set_spacing_def)




















subsection \<open>The grid branch\<close>










end
